theory Spec2Isabelle
  imports Main "HOL-Library.Word"
begin

section \<open>Values shared by the three roles\<close>

text \<open>
  A Go \<^verbatim>\<open>*big.Int\<close> is an unbounded integer behind a pointer: \<open>int option\<close>, with
  \<open>None\<close> for \<^verbatim>\<open>nil\<close>. A \<^verbatim>\<open>[]byte\<close> is a list of 8-bit words, again optional where
  the code compares it with \<^verbatim>\<open>nil\<close>. A \<^verbatim>\<open>func() hash.Hash\<close> is modelled by the
  digest it computes of everything written to it.
\<close>

type_synonym byte = "8 word"
type_synonym bytes = "byte list"
type_synonym hashfn = "bytes \<Rightarrow> bytes"

text \<open>\<^verbatim>\<open>time.Time\<close> and \<^verbatim>\<open>time.Duration\<close> in nanoseconds.\<close>

type_synonym time = int
type_synonym duration = int

definition time_Add :: "time \<Rightarrow> duration \<Rightarrow> time" where
  "time_Add t d = t + d"

definition time_After :: "time \<Rightarrow> time \<Rightarrow> bool" where
  "time_After t u = (u < t)"

text \<open>
  Errors by origin: \<^verbatim>\<open>fmt.Errorf(msg)\<close> of the library, \<^verbatim>\<open>errors.Wrapf(err, msg)\<close>
  around another error, and an error value handed over by a collaborator (the storage
  backend or the private-value generator), which the library passes on as it is.
\<close>

datatype error = Errorf string | Wrapf error string | External string

text \<open>
  A call returns normally with an error (\<open>Failure\<close>) or a result (\<open>Success\<close>), or it
  panics: dereferencing \<^verbatim>\<open>nil\<close> is a branch of the model, not an unspecified value.
\<close>

datatype 'a outcome = Panic | Failure error | Success 'a

section \<open>The SRP math kernel\<close>

text \<open>
  The file of the kernel (\<^verbatim>\<open>srp.go\<close>) is not among the sources; only its callers and
  its tests are. Each of its functions is modelled from section 4.1 of the specification,
  over integers: the steps below dereference the pointers before they call them.
\<close>

text \<open>Big-endian bytes of a natural number, without leading zeros (\<^verbatim>\<open>big.Int.Bytes\<close>).\<close>

fun nat_bytes :: "nat \<Rightarrow> bytes" where
  "nat_bytes n = (if n = 0 then [] else nat_bytes (n div 256) @ [of_nat (n mod 256)])"

declare nat_bytes.simps [simp del]

definition Bytes :: "int \<Rightarrow> bytes" where
  "Bytes x = nat_bytes (nat \<bar>x\<bar>)"

text \<open>The integer a big-endian byte string denotes (\<^verbatim>\<open>big.Int.SetBytes\<close>).\<close>

fun bytes_nat :: "nat \<Rightarrow> bytes \<Rightarrow> nat" where
  "bytes_nat acc [] = acc"
| "bytes_nat acc (b # bs) = bytes_nat (acc * 256 + unat b) bs"

definition SetBytes :: "bytes \<Rightarrow> int" where
  "SetBytes bs = int (bytes_nat 0 bs)"

text \<open>The bytes of a Go string.\<close>

definition string_bytes :: "string \<Rightarrow> bytes" where
  "string_bytes s = map of_char s"

text \<open>
  Modelled from the spec: the padding helper of the missing kernel, \<open>PAD(x)\<close>, the bytes
  of \<open>x\<close> left-padded with zeros to the byte length of \<open>N\<close>.
\<close>

definition PAD :: "int \<Rightarrow> int \<Rightarrow> bytes" where
  "PAD N x = replicate (length (Bytes N) - length (Bytes x)) 0 @ Bytes x"

text \<open>
  Modelled from the spec: \<^verbatim>\<open>computeMultiplier\<close> of the missing kernel, the multiplier
  \<open>k = H(N \<parallel> PAD(g))\<close>, taken modulo \<open>N\<close>.
\<close>

definition computeMultiplier :: "hashfn \<Rightarrow> int \<Rightarrow> int \<Rightarrow> int" where
  "computeMultiplier h N g = SetBytes (h (Bytes N @ PAD N g)) mod N"

text \<open>
  Modelled from the spec: the type \<^verbatim>\<open>funcX\<close> and the two password functions of the
  missing kernel, \<open>x = H(s \<parallel> H(I \<parallel> ":" \<parallel> P))\<close> and \<open>x = H(s \<parallel> H(P))\<close>, the digest read
  as a big-endian unsigned integer.
\<close>

type_synonym funcX = "hashfn \<Rightarrow> bytes \<Rightarrow> string \<Rightarrow> string \<Rightarrow> int"

definition computeXWithUsername :: funcX where
  "computeXWithUsername h salt username password =
     SetBytes (h (salt @ h (string_bytes username @ string_bytes '':'' @ string_bytes password)))"

definition computeXWithoutUsername :: funcX where
  "computeXWithoutUsername h salt username password =
     SetBytes (h (salt @ h (string_bytes password)))"

text \<open>
  Modelled from the spec: \<^verbatim>\<open>computeVerifier\<close> of the missing kernel, the verifier
  \<open>v = g^x mod N\<close>.
\<close>

definition computeVerifier :: "int \<Rightarrow> int \<Rightarrow> int \<Rightarrow> int" where
  "computeVerifier N g x = g ^ nat x mod N"

text \<open>
  Modelled from the spec: \<^verbatim>\<open>computePublicClientValue\<close> of the missing kernel,
  \<open>A = g^a mod N\<close>.
\<close>

definition computePublicClientValue :: "int \<Rightarrow> int \<Rightarrow> int \<Rightarrow> int" where
  "computePublicClientValue N g a = g ^ nat a mod N"

text \<open>
  Modelled from the spec: \<^verbatim>\<open>computePublicServerValue\<close> of the missing kernel,
  \<open>B = (k\<cdot>v + g^b mod N) mod N\<close>.
\<close>

definition computePublicServerValue :: "int \<Rightarrow> int \<Rightarrow> int \<Rightarrow> int \<Rightarrow> int \<Rightarrow> int" where
  "computePublicServerValue N g k v b = (k * v + g ^ nat b mod N) mod N"

text \<open>
  Modelled from the spec: \<^verbatim>\<open>computeScramblingParameter\<close> of the missing kernel,
  \<open>u = H(PAD(A) \<parallel> PAD(B))\<close>, as an integer that is not reduced modulo \<open>N\<close>. Its
  callers take one result from it, an integer and no error.
\<close>

definition computeScramblingParameter :: "hashfn \<Rightarrow> int \<Rightarrow> int \<Rightarrow> int \<Rightarrow> int" where
  "computeScramblingParameter h N A B = SetBytes (h (PAD N A @ PAD N B))"

text \<open>
  Modelled from the spec: \<^verbatim>\<open>computeClientSessionKey\<close> of the missing kernel,
  \<open>S = (B - k \<cdot> g^x mod N)^(a + u\<cdot>x) mod N\<close>, the subtraction taken modulo \<open>N\<close>.
\<close>

definition computeClientSessionKey ::
  "int \<Rightarrow> int \<Rightarrow> int \<Rightarrow> int \<Rightarrow> int \<Rightarrow> int \<Rightarrow> int \<Rightarrow> int" where
  "computeClientSessionKey N g k x u a B =
     ((B - k * (g ^ nat x mod N)) mod N) ^ nat (a + u * x) mod N"

text \<open>
  Modelled from the spec: \<^verbatim>\<open>computeServerSessionKey\<close> of the missing kernel,
  \<open>S = (A \<cdot> v^u mod N)^b mod N\<close>.
\<close>

definition computeServerSessionKey :: "int \<Rightarrow> int \<Rightarrow> int \<Rightarrow> int \<Rightarrow> int \<Rightarrow> int" where
  "computeServerSessionKey N v u A b = ((A * v ^ nat u) mod N) ^ nat b mod N"

text \<open>
  Modelled from the spec: \<^verbatim>\<open>isValidPublicValue\<close> of the missing kernel,
  \<open>isValidPublicValue(N, X)\<close> is \<open>X mod N \<noteq> 0\<close>. The tests of both steps expect a
  \<^verbatim>\<open>nil\<close> public value to be refused without a storage call, so \<^verbatim>\<open>nil\<close> is not
  valid.
\<close>

definition isValidPublicValue :: "int \<Rightarrow> int option \<Rightarrow> bool" where
  "isValidPublicValue N X = (case X of None \<Rightarrow> False | Some x \<Rightarrow> x mod N \<noteq> 0)"

text \<open>
  Modelled from the spec: \<^verbatim>\<open>computeClientEvidence\<close> and \<^verbatim>\<open>computeServerEvidence\<close> of
  the missing kernel, \<open>M1 = H(A \<parallel> B \<parallel> S)\<close> and \<open>M2 = H(A \<parallel> M1 \<parallel> S)\<close>, over the
  unpadded bytes, read back as integers.
\<close>

definition computeClientEvidence :: "hashfn \<Rightarrow> int \<Rightarrow> int \<Rightarrow> int \<Rightarrow> int" where
  "computeClientEvidence h A B S = SetBytes (h (Bytes A @ Bytes B @ Bytes S))"

definition computeServerEvidence :: "hashfn \<Rightarrow> int \<Rightarrow> int \<Rightarrow> int \<Rightarrow> int" where
  "computeServerEvidence h A M1 S = SetBytes (h (Bytes A @ Bytes M1 @ Bytes S))"

section \<open>Sessions and the storage backend\<close>

text \<open>
  Modelled from the spec: the type \<^verbatim>\<open>state\<close>, declared in the missing kernel file, with
  the three values the tests and the steps name.
\<close>

datatype state = initial | step1 | step2

text \<open>
  A value of a \<^verbatim>\<open>map[string]interface{}\<close>: the dynamic types the steps assert
  (\<^verbatim>\<open>state\<close>, \<^verbatim>\<open>time.Time\<close>, \<^verbatim>\<open>string\<close>, a non-nil \<^verbatim>\<open>*big.Int\<close>) and any other
  type. The library itself only ever stores non-nil integers.
\<close>

datatype val = VState state | VTime time | VString string | VBigInt int | VOther nat

type_synonym session = "string \<rightharpoonup> val"

text \<open>
  The interface \<^verbatim>\<open>storage.Backend\<close>: three methods over a state of the backend's own.
  Each may fail, and each may change the state.
\<close>

record 's Backend =
  Put :: "string \<Rightarrow> session \<Rightarrow> 's \<Rightarrow> error option \<times> 's"
  Get :: "string \<Rightarrow> 's \<Rightarrow> (error + session) \<times> 's"
  Delete :: "string \<Rightarrow> 's \<Rightarrow> error option \<times> 's"

text \<open>The in-memory backend of \<^verbatim>\<open>storage/memory\<close>: a map from keys to sessions.\<close>

definition MemoryBackend :: "(string \<rightharpoonup> session) Backend" where
  "MemoryBackend =
     \<lparr>Put = (\<lambda>key val m. (None, m(key \<mapsto> val))),
      Get = (\<lambda>key m. case m key of
                None \<Rightarrow> (Inl (Errorf ''key not found''), m)
              | Some val \<Rightarrow> (Inr val, m)),
      Delete = (\<lambda>key m. (None, m(key := None)))\<rparr>"

text \<open>
  What a step acts on besides its arguments: the state of the backend, the log of the
  calls made to it, the wall clock (the reading of the \<open>n\<close>-th call of \<^verbatim>\<open>time.Now\<close>) and
  the number of private values drawn so far.
\<close>

datatype call = CPut string session | CGet string | CDelete string

record 's world =
  store :: 's
  calls :: "call list"
  clock :: "nat \<Rightarrow> time"
  ticks :: nat
  draws :: nat

definition time_Now :: "'s world \<Rightarrow> time \<times> 's world" where
  "time_Now w = (clock w (ticks w), w\<lparr>ticks := Suc (ticks w)\<rparr>)"

definition backend_Put ::
  "'s Backend \<Rightarrow> string \<Rightarrow> session \<Rightarrow> 's world \<Rightarrow> error option \<times> 's world" where
  "backend_Put b key m w =
     (case Put b key m (store w) of
        (err, s) \<Rightarrow> (err, w\<lparr>store := s, calls := calls w @ [CPut key m]\<rparr>))"

definition backend_Get ::
  "'s Backend \<Rightarrow> string \<Rightarrow> 's world \<Rightarrow> (error + session) \<times> 's world" where
  "backend_Get b key w =
     (case Get b key (store w) of
        (r, s) \<Rightarrow> (r, w\<lparr>store := s, calls := calls w @ [CGet key]\<rparr>))"

definition backend_Delete ::
  "'s Backend \<Rightarrow> string \<Rightarrow> 's world \<Rightarrow> error option \<times> 's world" where
  "backend_Delete b key w =
     (case Delete b key (store w) of
        (err, s) \<Rightarrow> (err, w\<lparr>store := s, calls := calls w @ [CDelete key]\<rparr>))"

text \<open>
  Modelled from the spec: the type \<^verbatim>\<open>funcPrivateValue\<close>, declared in the missing kernel
  file. A function of this type returns a private value for the prime, or an error of its
  own; the second argument tells its calls apart, as the outcome of a random draw may
  differ from call to call.
\<close>

type_synonym funcPrivateValue = "int \<Rightarrow> nat \<Rightarrow> string + int"

definition draw :: "funcPrivateValue \<Rightarrow> int \<Rightarrow> 's world \<Rightarrow> (string + int) \<times> 's world" where
  "draw f n w = (f n (draws w), w\<lparr>draws := Suc (draws w)\<rparr>)"

text \<open>
  Reading a field of the session: the key may be absent, and the value may be of another
  dynamic type than the one asserted. The source repeats this block for every field.
\<close>

definition quoted :: "string \<Rightarrow> string" where
  "quoted f = [CHR 0x27] @ f @ [CHR 0x27]"

definition could_not_read :: "string \<Rightarrow> error" where
  "could_not_read f = Errorf (''could not read '' @ quoted f @ '' from backend'')"

definition type_assertion_error :: "string \<Rightarrow> error" where
  "type_assertion_error f = Errorf (''type assertion error for '' @ quoted f)"

definition get_state :: "session \<Rightarrow> string \<Rightarrow> error + state" where
  "get_state m f =
     (case m f of
        None \<Rightarrow> Inl (could_not_read f)
      | Some (VState x) \<Rightarrow> Inr x
      | Some _ \<Rightarrow> Inl (type_assertion_error f))"

definition get_time :: "session \<Rightarrow> string \<Rightarrow> error + time" where
  "get_time m f =
     (case m f of
        None \<Rightarrow> Inl (could_not_read f)
      | Some (VTime x) \<Rightarrow> Inr x
      | Some _ \<Rightarrow> Inl (type_assertion_error f))"

definition get_string :: "session \<Rightarrow> string \<Rightarrow> error + string" where
  "get_string m f =
     (case m f of
        None \<Rightarrow> Inl (could_not_read f)
      | Some (VString x) \<Rightarrow> Inr x
      | Some _ \<Rightarrow> Inl (type_assertion_error f))"

definition get_bigint :: "session \<Rightarrow> string \<Rightarrow> error + int" where
  "get_bigint m f =
     (case m f of
        None \<Rightarrow> Inl (could_not_read f)
      | Some (VBigInt x) \<Rightarrow> Inr x
      | Some _ \<Rightarrow> Inl (type_assertion_error f))"

definition state_violation :: "string \<Rightarrow> error" where
  "state_violation st = Errorf (''state violation: must be in '' @ quoted st @ '' state'')"

section \<open>Groups and configuration\<close>

text \<open>
  Modelled from the spec: the struct \<^verbatim>\<open>Group\<close>, declared in the missing kernel file, as
  the options and the tests use it: two pointers, each of which may be \<^verbatim>\<open>nil\<close>.
\<close>

record Group =
  Prime :: "int option"
  Generator :: "int option"

text \<open>The default group of the three constructors, the 2048-bit group of RFC 5054.\<close>

definition default_prime :: int where
  "default_prime =
     0xAC6BDB41324A9A9BF166DE5E1389582FAF72B6651987EE07FC3192943DB56050A37329CBB4A099ED8193E0757767A13DD52312AB4B03310DCD7F48A9DA04FD50E8083969EDB767B0CF6095179A163AB3661A05FBD5FAAAE82918A9962F0B93B855F97993EC975EEAA80D740ADBF4FF747359D041D5C33EA71D281E446B14773BCA97B43A23FB801676BD207A436C6481F1D2B9078717461A5B9D32E688F87748544523B524B0D57D5EA77A2775D2ECFA032CFBDBF52FB3786160279004E57AE6AF874E7303CE53299CCC041C7BC308D82A5698F3A8D0C38271AE35F8E9DBFBB694B5C803D89F7AE435DE236D525F54759B65E372FCD68EF20FA7111F9E4AFF73"

definition default_group :: Group where
  "default_group = \<lparr>Prime = Some default_prime, Generator = Some 2\<rparr>"

text \<open>
  An option function takes the object under construction and returns an error or
  \<^verbatim>\<open>nil\<close>; here it returns the updated object on success.
\<close>

fun apply_options :: "'c \<Rightarrow> ('c \<Rightarrow> 'c outcome) list \<Rightarrow> 'c outcome" where
  "apply_options c [] = Success c"
| "apply_options c (opt # options) =
     (case opt c of
        Panic \<Rightarrow> Panic
      | Failure err \<Rightarrow> Failure err
      | Success c' \<Rightarrow> apply_options c' options)"

section \<open>The verifier generator\<close>

record Verifier =
  grp :: Group
  fHash :: hashfn
  computeX :: funcX

type_synonym VerifierOption = "Verifier \<Rightarrow> Verifier outcome"

text \<open>
  \<^verbatim>\<open>sha256.New\<close> of the Go library is a parameter of the constructors, as is the default
  private-value generator of the kernel for the client and the server.
\<close>

definition NewVerifier :: "hashfn \<Rightarrow> VerifierOption list \<Rightarrow> Verifier outcome" where
  "NewVerifier sha256_New options =
     apply_options
       \<lparr>grp = default_group, fHash = sha256_New, computeX = computeXWithoutUsername\<rparr>
       options"

text \<open>
  A \<^verbatim>\<open>nil\<close> salt is an empty byte string to the hash. A \<^verbatim>\<open>nil\<close> prime or generator
  panics in the kernel.
\<close>

definition GenerateVerifier ::
  "Verifier \<Rightarrow> bytes option \<Rightarrow> string \<Rightarrow> string \<Rightarrow> int outcome" where
  "GenerateVerifier v salt username password =
     (let x = computeX v (fHash v) (case salt of None \<Rightarrow> [] | Some s \<Rightarrow> s) username password
      in case Prime (grp v) of
           None \<Rightarrow> Panic
         | Some N \<Rightarrow>
             (case Generator (grp v) of
                None \<Rightarrow> Panic
              | Some g \<Rightarrow> Success (computeVerifier N g x)))"

definition VerifierHash :: "hashfn option \<Rightarrow> VerifierOption" where
  "VerifierHash fHash' v =
     (case fHash' of
        None \<Rightarrow> Failure (Errorf ''the hash function must not be nil'')
      | Some h \<Rightarrow> Success (v\<lparr>fHash := h\<rparr>))"

text \<open>
  \<^verbatim>\<open>grp.Prime\<close> is read before anything is known about \<^verbatim>\<open>grp\<close>: with a \<^verbatim>\<open>nil\<close> group
  the read panics.
\<close>

definition VerifierGroup :: "Group option \<Rightarrow> VerifierOption" where
  "VerifierGroup grp' v =
     (case grp' of
        None \<Rightarrow> Panic
      | Some G \<Rightarrow>
          if Prime G = None \<or> Generator G = None
          then Failure (Errorf ''the prime and generator must not be nil'')
          else Success (v\<lparr>grp := G\<rparr>))"

definition VerifierFuncX :: "funcX option \<Rightarrow> VerifierOption" where
  "VerifierFuncX computeX' v =
     (case computeX' of
        None \<Rightarrow> Failure (Errorf ''the compute x function should not be nil'')
      | Some f \<Rightarrow> Success (v\<lparr>computeX := f\<rparr>))"

section \<open>The client\<close>

record 's Client =
  backend :: "'s Backend"
  grp :: Group
  computeX :: funcX
  fHash :: hashfn
  generatePrivateValue :: funcPrivateValue
  timeout :: duration

type_synonym 's ClientOption = "'s Client \<Rightarrow> 's Client outcome"

definition NewClient ::
  "hashfn \<Rightarrow> funcPrivateValue \<Rightarrow> 's Backend \<Rightarrow> 's ClientOption list \<Rightarrow> 's Client outcome" where
  "NewClient sha256_New generatePrivateValue' backend' options =
     apply_options
       \<lparr>backend = backend', grp = default_group, computeX = computeXWithoutUsername,
        fHash = sha256_New, generatePrivateValue = generatePrivateValue', timeout = 0\<rparr>
       options"

text \<open>With no timeout configured the clock is not read.\<close>

definition Client_hasTimedOut :: "'s Client \<Rightarrow> time \<Rightarrow> 's world \<Rightarrow> bool \<times> 's world" where
  "Client_hasTimedOut c lastActivity w =
     (if timeout c = 0 then (False, w)
      else (case time_Now w of
        (now, w') \<Rightarrow> (time_After now (time_Add lastActivity (timeout c)), w')))"

text \<open>The result of \<^verbatim>\<open>Put\<close> is dropped: the step returns \<^verbatim>\<open>nil\<close> after it.\<close>

definition Client_Step1 :: "'s Client \<Rightarrow> string \<Rightarrow> string \<Rightarrow> 's world \<Rightarrow> unit outcome \<times> 's world" where
  "Client_Step1 c userID password w =
     (if userID = [] then (Failure (Errorf ''the user identity must not be empty''), w)
      else if password = [] then (Failure (Errorf ''the user password must not be empty''), w)
      else (case time_Now w of
        (now, w1) \<Rightarrow>
          (case backend_Put (backend c) userID
                  [''state'' \<mapsto> VState step1, ''lastActivity'' \<mapsto> VTime now,
                   ''password'' \<mapsto> VString password] w1 of
             (_, w2) \<Rightarrow> (Success (), w2))))"

text \<open>
  A \<^verbatim>\<open>nil\<close> prime, generator or public value panics where the step first hands it to
  the kernel for arithmetic.
\<close>

definition Client_Step2 ::
  "'s Client \<Rightarrow> string \<Rightarrow> bytes option \<Rightarrow> int option \<Rightarrow> 's world
     \<Rightarrow> (int \<times> int) outcome \<times> 's world" where
  "Client_Step2 c userID salt publicServerValue w =
     (if userID = [] then (Failure (Errorf ''the user identity must not be empty''), w)
      else (case salt of
        None \<Rightarrow> (Failure (Errorf ''the salt must not be nil''), w)
      | Some s \<Rightarrow>
      (case Prime (grp c) of
        None \<Rightarrow> (Panic, w)
      | Some N \<Rightarrow>
      if \<not> isValidPublicValue N publicServerValue
      then (Failure (Errorf ''bad server public value''), w)
      else (case backend_Get (backend c) userID w of
        (Inl err, w1) \<Rightarrow>
          (Failure (Wrapf err ''could not get SRP data from backend during step2''), w1)
      | (Inr m, w1) \<Rightarrow>
      (case get_state m ''state'' of
        Inl err \<Rightarrow> (Failure err, w1)
      | Inr step \<Rightarrow>
      (case get_time m ''lastActivity'' of
        Inl err \<Rightarrow> (Failure err, w1)
      | Inr lastActivity \<Rightarrow>
      (case get_string m ''password'' of
        Inl err \<Rightarrow> (Failure err, w1)
      | Inr password \<Rightarrow>
      if step \<noteq> step1 then (Failure (state_violation ''step1''), w1)
      else (case Client_hasTimedOut c lastActivity w1 of
        (True, w2) \<Rightarrow> (Failure (Errorf ''session timeout''), w2)
      | (False, w2) \<Rightarrow>
      (let x = computeX c (fHash c) s userID password
       in (case draw (generatePrivateValue c) N w2 of
        (Inl err, w3) \<Rightarrow> (Failure (External err), w3)
      | (Inr privateClientValue, w3) \<Rightarrow>
      (case Generator (grp c) of
        None \<Rightarrow> (Panic, w3)
      | Some g \<Rightarrow>
      (case publicServerValue of
        None \<Rightarrow> (Panic, w3)
      | Some B \<Rightarrow>
      (let publicClientValue = computePublicClientValue N g privateClientValue;
           multiplier = computeMultiplier (fHash c) N g;
           scramblingParam = computeScramblingParameter (fHash c) N publicClientValue B;
           sessionKey = computeClientSessionKey N g multiplier x scramblingParam
                          privateClientValue B;
           clientEvidence = computeClientEvidence (fHash c) publicClientValue B sessionKey
       in (case time_Now w3 of
        (now, w4) \<Rightarrow>
          (case backend_Put (backend c) userID
                  [''state'' \<mapsto> VState step2, ''lastActivity'' \<mapsto> VTime now,
                   ''publicClientValue'' \<mapsto> VBigInt publicClientValue,
                   ''clientEvidence'' \<mapsto> VBigInt clientEvidence,
                   ''sessionKey'' \<mapsto> VBigInt sessionKey] w4 of
             (_, w5) \<Rightarrow> (Success (publicClientValue, clientEvidence), w5))))))))))))))))"

definition Client_Step3 ::
  "'s Client \<Rightarrow> string \<Rightarrow> int option \<Rightarrow> 's world \<Rightarrow> unit outcome \<times> 's world" where
  "Client_Step3 c userID serverEvidence w =
     (if userID = [] then (Failure (Errorf ''the user identity must not be empty''), w)
      else (case serverEvidence of
        None \<Rightarrow> (Failure (Errorf ''the server evidence message must not be nil''), w)
      | Some M2 \<Rightarrow>
      (case backend_Get (backend c) userID w of
        (Inl err, w1) \<Rightarrow>
          (Failure (Wrapf err ''could not get SRP data from backend during step3''), w1)
      | (Inr m, w1) \<Rightarrow>
      (case get_state m ''state'' of
        Inl err \<Rightarrow> (Failure err, w1)
      | Inr step \<Rightarrow>
      (case get_time m ''lastActivity'' of
        Inl err \<Rightarrow> (Failure err, w1)
      | Inr lastActivity \<Rightarrow>
      (case get_bigint m ''publicClientValue'' of
        Inl err \<Rightarrow> (Failure err, w1)
      | Inr publicClientValue \<Rightarrow>
      (case get_bigint m ''clientEvidence'' of
        Inl err \<Rightarrow> (Failure err, w1)
      | Inr clientEvidence \<Rightarrow>
      (case get_bigint m ''sessionKey'' of
        Inl err \<Rightarrow> (Failure err, w1)
      | Inr sessionKey \<Rightarrow>
      if step \<noteq> step2 then (Failure (state_violation ''step2''), w1)
      else (case Client_hasTimedOut c lastActivity w1 of
        (True, w2) \<Rightarrow> (Failure (Errorf ''session timeout''), w2)
      | (False, w2) \<Rightarrow>
      if computeServerEvidence (fHash c) publicClientValue clientEvidence sessionKey \<noteq> M2
      then (Failure (Errorf ''bad server credentials''), w2)
      else (case backend_Delete (backend c) userID w2 of
        (_, w3) \<Rightarrow> (Success (), w3)))))))))))"

definition ClientHash :: "hashfn option \<Rightarrow> 's ClientOption" where
  "ClientHash fHash' c =
     (case fHash' of
        None \<Rightarrow> Failure (Errorf ''the hash function must not be nil'')
      | Some h \<Rightarrow> Success (c\<lparr>fHash := h\<rparr>))"

definition ClientGroup :: "Group option \<Rightarrow> 's ClientOption" where
  "ClientGroup grp' c =
     (case grp' of
        None \<Rightarrow> Panic
      | Some G \<Rightarrow>
          if Prime G = None \<or> Generator G = None
          then Failure (Errorf ''the prime and generator must not be nil'')
          else Success (c\<lparr>grp := G\<rparr>))"

definition ClientFuncX :: "funcX option \<Rightarrow> 's ClientOption" where
  "ClientFuncX computeX' c =
     (case computeX' of
        None \<Rightarrow> Failure (Errorf ''the compute x function should not be nil'')
      | Some f \<Rightarrow> Success (c\<lparr>computeX := f\<rparr>))"

definition ClientTimeout :: "duration \<Rightarrow> 's ClientOption" where
  "ClientTimeout t c =
     (if t < 0 then Failure (Errorf ''the timeout must be zero (no timeout) or greater'')
      else Success (c\<lparr>timeout := t\<rparr>))"

definition Client_setGeneratePrivateValue :: "'s Client \<Rightarrow> funcPrivateValue \<Rightarrow> 's Client" where
  "Client_setGeneratePrivateValue c f = c\<lparr>generatePrivateValue := f\<rparr>"

section \<open>The server\<close>

record 's Server =
  backend :: "'s Backend"
  grp :: Group
  computeX :: funcX
  fHash :: hashfn
  generatePrivateValue :: funcPrivateValue
  timeout :: duration

type_synonym 's ServerOption = "'s Server \<Rightarrow> 's Server outcome"

definition NewServer ::
  "hashfn \<Rightarrow> funcPrivateValue \<Rightarrow> 's Backend \<Rightarrow> 's ServerOption list \<Rightarrow> 's Server outcome" where
  "NewServer sha256_New generatePrivateValue' backend' options =
     apply_options
       \<lparr>backend = backend', grp = default_group, computeX = computeXWithoutUsername,
        fHash = sha256_New, generatePrivateValue = generatePrivateValue', timeout = 0\<rparr>
       options"

definition Server_hasTimedOut :: "'s Server \<Rightarrow> time \<Rightarrow> 's world \<Rightarrow> bool \<times> 's world" where
  "Server_hasTimedOut s lastActivity w =
     (if timeout s = 0 then (False, w)
      else (case time_Now w of
        (now, w') \<Rightarrow> (time_After now (time_Add lastActivity (timeout s)), w')))"

definition Server_Step1 ::
  "'s Server \<Rightarrow> string \<Rightarrow> bytes option \<Rightarrow> int option \<Rightarrow> 's world \<Rightarrow> int outcome \<times> 's world" where
  "Server_Step1 s userID salt verifier w =
     (if userID = [] then (Failure (Errorf ''the user identity must not be empty''), w)
      else if salt = None then (Failure (Errorf ''the salt must not be nil''), w)
      else (case verifier of
        None \<Rightarrow> (Failure (Errorf ''the verifier must not be nil''), w)
      | Some v \<Rightarrow>
      (case Prime (grp s) of
        None \<Rightarrow> (Panic, w)
      | Some N \<Rightarrow>
      (case Generator (grp s) of
        None \<Rightarrow> (Panic, w)
      | Some g \<Rightarrow>
      (let multiplier = computeMultiplier (fHash s) N g
       in (case draw (generatePrivateValue s) N w of
        (Inl err, w1) \<Rightarrow> (Failure (External err), w1)
      | (Inr privateServerValue, w1) \<Rightarrow>
      (let publicServerValue = computePublicServerValue N g multiplier v privateServerValue
       in (case time_Now w1 of
        (lastActivity, w2) \<Rightarrow>
          (case backend_Put (backend s) userID
                  [''state'' \<mapsto> VState step1, ''lastActivity'' \<mapsto> VTime lastActivity,
                   ''publicServerValue'' \<mapsto> VBigInt publicServerValue,
                   ''privateServerValue'' \<mapsto> VBigInt privateServerValue] w2 of
             (_, w3) \<Rightarrow> (Success publicServerValue, w3))))))))))"

definition Server_Step2 ::
  "'s Server \<Rightarrow> string \<Rightarrow> bytes option \<Rightarrow> int option \<Rightarrow> int option \<Rightarrow> int option \<Rightarrow> 's world
     \<Rightarrow> int outcome \<times> 's world" where
  "Server_Step2 s userID salt verifier publicClientValue clientEvidence w =
     (if userID = [] then (Failure (Errorf ''the user identity must not be empty''), w)
      else if salt = None then (Failure (Errorf ''the salt must not be nil''), w)
      else (case verifier of
        None \<Rightarrow> (Failure (Errorf ''the verifier must not be nil''), w)
      | Some v \<Rightarrow>
      (case clientEvidence of
        None \<Rightarrow> (Failure (Errorf ''the client evidence message must not be nil''), w)
      | Some M1 \<Rightarrow>
      (case Prime (grp s) of
        None \<Rightarrow> (Panic, w)
      | Some N \<Rightarrow>
      if \<not> isValidPublicValue N publicClientValue
      then (Failure (Errorf ''bad client public value''), w)
      else (case backend_Get (backend s) userID w of
        (Inl err, w1) \<Rightarrow>
          (Failure (Wrapf err ''could not get SRP data from backend during step2''), w1)
      | (Inr m, w1) \<Rightarrow>
      (case get_state m ''state'' of
        Inl err \<Rightarrow> (Failure err, w1)
      | Inr step \<Rightarrow>
      (case get_time m ''lastActivity'' of
        Inl err \<Rightarrow> (Failure err, w1)
      | Inr lastActivity \<Rightarrow>
      (case get_bigint m ''publicServerValue'' of
        Inl err \<Rightarrow> (Failure err, w1)
      | Inr publicServerValue \<Rightarrow>
      (case get_bigint m ''privateServerValue'' of
        Inl err \<Rightarrow> (Failure err, w1)
      | Inr privateServerValue \<Rightarrow>
      if step \<noteq> step1 then (Failure (state_violation ''step1''), w1)
      else (case Server_hasTimedOut s lastActivity w1 of
        (True, w2) \<Rightarrow> (Failure (Errorf ''srp timeout''), w2)
      | (False, w2) \<Rightarrow>
      (case publicClientValue of
        None \<Rightarrow> (Panic, w2)
      | Some A \<Rightarrow>
      (let scramblingParam = computeScramblingParameter (fHash s) N A publicServerValue;
           sessionKey = computeServerSessionKey N v scramblingParam A privateServerValue;
           computedM1 = computeClientEvidence (fHash s) A publicServerValue sessionKey
       in if computedM1 \<noteq> M1 then (Failure (Errorf ''bad client credentials''), w2)
          else let serverEvidence = computeServerEvidence (fHash s) A M1 sessionKey
               in (case backend_Delete (backend s) userID w2 of
                    (_, w3) \<Rightarrow> (Success serverEvidence, w3))))))))))))))"

definition ServerHash :: "hashfn option \<Rightarrow> 's ServerOption" where
  "ServerHash fHash' s =
     (case fHash' of
        None \<Rightarrow> Failure (Errorf ''the hash function must not be nil'')
      | Some h \<Rightarrow> Success (s\<lparr>fHash := h\<rparr>))"

definition ServerGroup :: "Group option \<Rightarrow> 's ServerOption" where
  "ServerGroup grp' s =
     (case grp' of
        None \<Rightarrow> Panic
      | Some G \<Rightarrow>
          if Prime G = None \<or> Generator G = None
          then Failure (Errorf ''the prime and generator must not be nil'')
          else Success (s\<lparr>grp := G\<rparr>))"

definition ServerFuncX :: "funcX option \<Rightarrow> 's ServerOption" where
  "ServerFuncX computeX' s =
     (case computeX' of
        None \<Rightarrow> Failure (Errorf ''the compute x function should not be nil'')
      | Some f \<Rightarrow> Success (s\<lparr>computeX := f\<rparr>))"

definition ServerTimeout :: "duration \<Rightarrow> 's ServerOption" where
  "ServerTimeout t s =
     (if t < 0 then Failure (Errorf ''the timeout must be zero (no timeout) or greater'')
      else Success (s\<lparr>timeout := t\<rparr>))"

definition Server_setGeneratePrivateValue :: "'s Server \<Rightarrow> funcPrivateValue \<Rightarrow> 's Server" where
  "Server_setGeneratePrivateValue s f = s\<lparr>generatePrivateValue := f\<rparr>"

section \<open>Small instances\<close>

text \<open>
  A group, two hash functions with a one-byte digest, private-value generators that
  return a fixed value, and a backend that reads like the in-memory one and refuses
  every write. They make the properties below concrete.
\<close>

definition toy_group :: Group where
  "toy_group = \<lparr>Prime = Some 23, Generator = Some 5\<rparr>"

definition toy_hash :: hashfn where
  "toy_hash bs = [foldr (+) bs 7 mod 4]"

definition zero_hash :: hashfn where
  "zero_hash bs = [0]"

definition ReadOnlyBackend :: "(string \<rightharpoonup> session) Backend" where
  "ReadOnlyBackend =
     \<lparr>Put = (\<lambda>key val m. (Some (Errorf ''read-only storage''), m)),
      Get = Get MemoryBackend,
      Delete = (\<lambda>key m. (Some (Errorf ''read-only storage''), m))\<rparr>"

definition empty_store :: "string \<rightharpoonup> session" where
  "empty_store = Map.empty"

definition store_with :: "string \<Rightarrow> session \<Rightarrow> (string \<rightharpoonup> session)" where
  "store_with key m = empty_store(key \<mapsto> m)"

definition toy_world :: "(string \<rightharpoonup> session) \<Rightarrow> (string \<rightharpoonup> session) world" where
  "toy_world st = \<lparr>store = st, calls = [], clock = (\<lambda>n. 1000 + int n), ticks = 0, draws = 0\<rparr>"

definition toy_client ::
  "(string \<rightharpoonup> session) Backend \<Rightarrow> hashfn \<Rightarrow> duration \<Rightarrow> (string \<rightharpoonup> session) Client" where
  "toy_client b h t =
     \<lparr>Client.backend = b, grp = toy_group, computeX = computeXWithUsername, fHash = h,
      generatePrivateValue = (\<lambda>n i. Inr 6), timeout = t\<rparr>"

definition toy_server ::
  "(string \<rightharpoonup> session) Backend \<Rightarrow> hashfn \<Rightarrow> duration \<Rightarrow> (string \<rightharpoonup> session) Server" where
  "toy_server b h t =
     \<lparr>Server.backend = b, grp = toy_group, computeX = computeXWithUsername, fHash = h,
      generatePrivateValue = (\<lambda>n i. Inr 15), timeout = t\<rparr>"

text \<open>Sessions as the first steps leave them, at time \<open>la\<close>.\<close>

definition client_session1 :: "time \<Rightarrow> string \<Rightarrow> session" where
  "client_session1 la password =
     [''state'' \<mapsto> VState step1, ''lastActivity'' \<mapsto> VTime la, ''password'' \<mapsto> VString password]"

definition client_session2 :: "time \<Rightarrow> int \<Rightarrow> int \<Rightarrow> int \<Rightarrow> session" where
  "client_session2 la A M1 S =
     [''state'' \<mapsto> VState step2, ''lastActivity'' \<mapsto> VTime la,
      ''publicClientValue'' \<mapsto> VBigInt A, ''clientEvidence'' \<mapsto> VBigInt M1,
      ''sessionKey'' \<mapsto> VBigInt S]"

definition server_session1 :: "time \<Rightarrow> int \<Rightarrow> int \<Rightarrow> session" where
  "server_session1 la B b =
     [''state'' \<mapsto> VState step1, ''lastActivity'' \<mapsto> VTime la,
      ''publicServerValue'' \<mapsto> VBigInt B, ''privateServerValue'' \<mapsto> VBigInt b]"

section \<open>Properties of the kernel\<close>

lemma SetBytes_nonneg: "0 \<le> SetBytes bs"
  by (simp add: SetBytes_def)

lemma computeScramblingParameter_nonneg: "0 \<le> computeScramblingParameter h N A B"
  by (simp add: computeScramblingParameter_def SetBytes_nonneg)

lemma computeX_nonneg:
  "0 \<le> computeXWithUsername h s I P" "0 \<le> computeXWithoutUsername h s I P"
  by (simp_all add: computeXWithUsername_def computeXWithoutUsername_def SetBytes_nonneg)

text \<open>The base of the client's power is the server's \<open>g^b\<close>, whatever \<open>k\<close> is.\<close>

lemma client_base:
  "(computePublicServerValue N g k (computeVerifier N g x) b - k * (g ^ nat x mod N)) mod N
     = g ^ nat b mod N"
proof -
  have "((k * (g ^ nat x mod N) + g ^ nat b mod N) mod N - k * (g ^ nat x mod N)) mod N
          = ((k * (g ^ nat x mod N) + g ^ nat b mod N) - k * (g ^ nat x mod N)) mod N"
    by (rule mod_diff_left_eq)
  also have "\<dots> = g ^ nat b mod N"
    by simp
  finally show ?thesis
    by (simp add: computePublicServerValue_def computeVerifier_def)
qed

lemma client_key_power:
  assumes "0 \<le> a" "0 \<le> u" "0 \<le> x"
  shows "computeClientSessionKey N g k x u a
           (computePublicServerValue N g k (computeVerifier N g x) b)
         = g ^ (nat b * (nat a + nat u * nat x)) mod N"
proof -
  have e: "nat (a + u * x) = nat a + nat u * nat x"
    using assms by (simp add: nat_add_distrib nat_mult_distrib)
  have "computeClientSessionKey N g k x u a
           (computePublicServerValue N g k (computeVerifier N g x) b)
        = (g ^ nat b mod N) ^ (nat a + nat u * nat x) mod N"
    unfolding computeClientSessionKey_def client_base e ..
  also have "\<dots> = (g ^ nat b) ^ (nat a + nat u * nat x) mod N"
    by (rule power_mod)
  finally show ?thesis
    by (simp add: power_mult)
qed

lemma server_key_power:
  "computeServerSessionKey N (computeVerifier N g x) u (computePublicClientValue N g a) b
     = g ^ (nat b * (nat a + nat u * nat x)) mod N"
proof -
  have "((g ^ nat a mod N) * (g ^ nat x mod N) ^ nat u) mod N
          = (g ^ nat a * (g ^ nat x) ^ nat u) mod N"
    by (rule mod_mult_cong) (simp_all only: mod_mod_trivial power_mod)
  also have "(g ^ nat x) ^ nat u = g ^ (nat u * nat x)"
    by (simp only: power_mult [symmetric] mult.commute)
  finally have base: "((g ^ nat a mod N) * (g ^ nat x mod N) ^ nat u) mod N
          = g ^ (nat a + nat u * nat x) mod N"
    by (simp only: power_add)
  have "computeServerSessionKey N (computeVerifier N g x) u (computePublicClientValue N g a) b
          = (g ^ (nat a + nat u * nat x) mod N) ^ nat b mod N"
    unfolding computeServerSessionKey_def computeVerifier_def computePublicClientValue_def base ..
  also have "\<dots> = (g ^ (nat a + nat u * nat x)) ^ nat b mod N"
    by (rule power_mod)
  also have "(g ^ (nat a + nat u * nat x)) ^ nat b = g ^ (nat b * (nat a + nat u * nat x))"
    by (simp only: power_mult [symmetric] mult.commute)
  finally show ?thesis .
qed

section \<open>Agreement of the session keys\<close>

text \<open>
  Claim C2. For every group, hash function, salt, identity and password, and all private
  values \<open>a\<close> and \<open>b\<close> in \<open>[1, N - 1]\<close>: when the verifier is \<open>g^x mod N\<close> for the \<open>x\<close>
  of either password function, and \<open>A\<close>, \<open>B\<close>, \<open>k\<close> and \<open>u\<close> are the kernel's public
  values, multiplier and scrambling parameter, the client's session key equals the
  server's.
\<close>

theorem session_keys_agree:
  assumes "1 \<le> a" "a < N" "1 \<le> b" "b < N"
    and "X = computeXWithUsername \<or> X = computeXWithoutUsername"
  shows "let x = X h s I P;
             v = computeVerifier N g x;
             k = computeMultiplier h N g;
             A = computePublicClientValue N g a;
             B = computePublicServerValue N g k v b;
             u = computeScramblingParameter h N A B
         in computeClientSessionKey N g k x u a B = computeServerSessionKey N v u A b"
proof -
  have x: "0 \<le> X h s I P"
    using assms(5) computeX_nonneg by auto
  have a: "0 \<le> a"
    using assms(1) by simp
  show ?thesis
    unfolding Let_def
    by (simp only: client_key_power [OF a computeScramblingParameter_nonneg x] server_key_power)
qed

theorem session_keys_agree_witness:
  "(1::int) \<le> 6 \<and> (6::int) < 23 \<and> (1::int) \<le> 15 \<and> (15::int) < 23 \<and>
   (computeXWithUsername = computeXWithUsername \<or> computeXWithUsername = computeXWithoutUsername) \<and>
   (let x = computeXWithUsername toy_hash [1, 2, 3] ''alice'' ''pw'';
        v = computeVerifier 23 5 x;
        k = computeMultiplier toy_hash 23 5;
        A = computePublicClientValue 23 5 6;
        B = computePublicServerValue 23 5 k v 15;
        u = computeScramblingParameter toy_hash 23 A B
    in computeClientSessionKey 23 5 k x u 6 B = computeServerSessionKey 23 v u A 15)"
proof -
  have h: "(1::int) \<le> 6" "(6::int) < 23" "(1::int) \<le> 15" "(15::int) < 23"
    by simp_all
  have X: "computeXWithUsername = computeXWithUsername \<or> computeXWithUsername = computeXWithoutUsername"
    by simp
  from session_keys_agree [OF h X, of toy_hash "[1, 2, 3]" "''alice''" "''pw''" 5] h X
  show ?thesis by blast
qed

section \<open>What the steps do to the world\<close>

lemmas world_defs = backend_Get_def backend_Put_def backend_Delete_def time_Now_def draw_def

lemmas reader_defs = get_state_def get_time_def get_string_def get_bigint_def
  could_not_read_def type_assertion_error_def state_violation_def quoted_def

lemma Client_Step2_Failure_calls:
  "Client_Step2 c userID salt B w = (Failure e, w') \<Longrightarrow>
     calls w' = calls w \<or> calls w' = calls w @ [CGet userID]"
  by (auto simp: Client_Step2_def Client_hasTimedOut_def world_defs Let_def
           split: if_splits option.splits sum.splits prod.splits bool.splits)

lemma Client_Step3_Failure_calls:
  "Client_Step3 c userID M2 w = (Failure e, w') \<Longrightarrow>
     calls w' = calls w \<or> calls w' = calls w @ [CGet userID]"
  by (auto simp: Client_Step3_def Client_hasTimedOut_def world_defs Let_def
           split: if_splits option.splits sum.splits prod.splits bool.splits)

lemma Server_Step2_Failure_calls:
  "Server_Step2 s userID salt v A M1 w = (Failure e, w') \<Longrightarrow>
     calls w' = calls w \<or> calls w' = calls w @ [CGet userID]"
  by (auto simp: Server_Step2_def Server_hasTimedOut_def world_defs Let_def
           split: if_splits option.splits sum.splits prod.splits bool.splits)

lemma Client_Step2_Failure_store:
  "Client_Step2 c userID salt B w = (Failure e, w') \<Longrightarrow>
     store w' = store w \<or> store w' = snd (Get (Client.backend c) userID (store w))"
  by (auto simp: Client_Step2_def Client_hasTimedOut_def world_defs Let_def
           split: if_splits option.splits sum.splits prod.splits bool.splits)

lemma Client_Step3_Failure_store:
  "Client_Step3 c userID M2 w = (Failure e, w') \<Longrightarrow>
     store w' = store w \<or> store w' = snd (Get (Client.backend c) userID (store w))"
  by (auto simp: Client_Step3_def Client_hasTimedOut_def world_defs Let_def
           split: if_splits option.splits sum.splits prod.splits bool.splits)

lemma Server_Step2_Failure_store:
  "Server_Step2 s userID salt v A M1 w = (Failure e, w') \<Longrightarrow>
     store w' = store w \<or> store w' = snd (Get (Server.backend s) userID (store w))"
  by (auto simp: Server_Step2_def Server_hasTimedOut_def world_defs Let_def
           split: if_splits option.splits sum.splits prod.splits bool.splits)

text \<open>A timeout failure comes from the timeout check and from nowhere else.\<close>

lemma Client_Step2_timeout_origin:
  "fst (Client_Step2 c userID salt B w) = Failure (Errorf ''session timeout'') \<Longrightarrow>
     \<exists>m w1 la w2. backend_Get (Client.backend c) userID w = (Inr m, w1) \<and>
        m ''lastActivity'' = Some (VTime la) \<and> Client_hasTimedOut c la w1 = (True, w2)"
  by (auto simp: Client_Step2_def Let_def reader_defs
           split: if_splits option.splits sum.splits prod.splits bool.splits val.splits)

lemma Client_Step3_timeout_origin:
  "fst (Client_Step3 c userID M2 w) = Failure (Errorf ''session timeout'') \<Longrightarrow>
     \<exists>m w1 la w2. backend_Get (Client.backend c) userID w = (Inr m, w1) \<and>
        m ''lastActivity'' = Some (VTime la) \<and> Client_hasTimedOut c la w1 = (True, w2)"
  by (auto simp: Client_Step3_def Let_def reader_defs
           split: if_splits option.splits sum.splits prod.splits bool.splits val.splits)

lemma Server_Step2_timeout_origin:
  "fst (Server_Step2 s userID salt v A M1 w) = Failure (Errorf ''srp timeout'') \<Longrightarrow>
     \<exists>m w1 la w2. backend_Get (Server.backend s) userID w = (Inr m, w1) \<and>
        m ''lastActivity'' = Some (VTime la) \<and> Server_hasTimedOut s la w1 = (True, w2)"
  by (auto simp: Server_Step2_def Let_def reader_defs
           split: if_splits option.splits sum.splits prod.splits bool.splits val.splits)


text \<open>What the second steps return once validation, the read of the session, the state
  check and the timeout check have passed.\<close>

lemma Client_Step2_checked:
  assumes "userID \<noteq> []"
    and "Prime (Client.grp c) = Some N" "Generator (Client.grp c) = Some g"
    and "isValidPublicValue N (Some B)"
    and "backend_Get (Client.backend c) userID w = (Inr m, w1)"
    and "m ''state'' = Some (VState step1)" "m ''lastActivity'' = Some (VTime la)"
    and "m ''password'' = Some (VString P)"
    and "Client_hasTimedOut c la w1 = (False, w2)"
    and "draw (Client.generatePrivateValue c) N w2 = (Inr a, w3)"
  shows "fst (Client_Step2 c userID (Some salt) (Some B) w) =
     (let A = computePublicClientValue N g a;
          u = computeScramblingParameter (Client.fHash c) N A B;
          S = computeClientSessionKey N g (computeMultiplier (Client.fHash c) N g)
                (Client.computeX c (Client.fHash c) salt userID P) u a B
      in Success (A, computeClientEvidence (Client.fHash c) A B S))"
  using assms
  by (simp add: Client_Step2_def Let_def reader_defs split: prod.splits)

lemma Client_Step3_checked:
  assumes "userID \<noteq> []"
    and "backend_Get (Client.backend c) userID w = (Inr m, w1)"
    and "m ''state'' = Some (VState step2)" "m ''lastActivity'' = Some (VTime la)"
    and "m ''publicClientValue'' = Some (VBigInt A)" "m ''clientEvidence'' = Some (VBigInt M1)"
    and "m ''sessionKey'' = Some (VBigInt S)"
    and "Client_hasTimedOut c la w1 = (False, w2)"
  shows "Client_Step3 c userID (Some M2) w =
     (if computeServerEvidence (Client.fHash c) A M1 S \<noteq> M2
      then (Failure (Errorf ''bad server credentials''), w2)
      else (Success (), snd (backend_Delete (Client.backend c) userID w2)))"
  using assms
  by (simp add: Client_Step3_def Let_def reader_defs split: prod.splits)

lemma Server_Step2_checked:
  assumes "userID \<noteq> []"
    and "Prime (Server.grp s) = Some N"
    and "isValidPublicValue N (Some A)"
    and "backend_Get (Server.backend s) userID w = (Inr m, w1)"
    and "m ''state'' = Some (VState step1)" "m ''lastActivity'' = Some (VTime la)"
    and "m ''publicServerValue'' = Some (VBigInt B)"
    and "m ''privateServerValue'' = Some (VBigInt b)"
    and "Server_hasTimedOut s la w1 = (False, w2)"
  shows "Server_Step2 s userID (Some salt) (Some v) (Some A) (Some M1) w =
     (let u = computeScramblingParameter (Server.fHash s) N A B;
          S = computeServerSessionKey N v u A b
      in if computeClientEvidence (Server.fHash s) A B S \<noteq> M1
         then (Failure (Errorf ''bad client credentials''), w2)
         else (Success (computeServerEvidence (Server.fHash s) A M1 S),
               snd (backend_Delete (Server.backend s) userID w2)))"
  using assms
  by (simp add: Server_Step2_def Let_def reader_defs split: prod.splits)


lemmas kernel_defs =
  computeMultiplier_def computeXWithUsername_def computeXWithoutUsername_def
  computeVerifier_def computePublicClientValue_def computePublicServerValue_def
  computeScramblingParameter_def computeClientSessionKey_def computeServerSessionKey_def
  computeClientEvidence_def computeServerEvidence_def isValidPublicValue_def
  SetBytes_def PAD_def Bytes_def string_bytes_def nat_bytes.simps

lemmas toy_defs =
  toy_group_def ReadOnlyBackend_def MemoryBackend_def
  empty_store_def store_with_def toy_world_def toy_client_def toy_server_def
  client_session1_def client_session2_def server_session1_def

lemmas step_defs =
  Client_Step1_def Client_Step2_def Client_Step3_def Server_Step1_def Server_Step2_def
  Client_hasTimedOut_def Server_hasTimedOut_def world_defs reader_defs Let_def

text \<open>The kernel on the small group, with the two small hash functions.\<close>

lemma toy_values:
  "computeXWithUsername toy_hash [1, 2, 3] ''alice'' ''pw'' = 3"
  "computeVerifier 23 5 3 = 10"
  "computeMultiplier toy_hash 23 5 = 3"
  "computePublicClientValue 23 5 6 = 8"
  "computePublicServerValue 23 5 3 10 15 = 3"
  "computeScramblingParameter toy_hash 23 8 3 = 2"
  "computeClientSessionKey 23 5 3 3 2 6 3 = 4"
  "computeServerSessionKey 23 10 2 8 15 = 4"
  "computeClientEvidence toy_hash 8 3 4 = 2"
  "computeServerEvidence toy_hash 8 2 4 = 1"
  "isValidPublicValue 23 (Some 3)"
  "isValidPublicValue 23 (Some 8)"
  by (simp_all add: kernel_defs toy_hash_def)

lemma zero_values:
  "computeXWithUsername zero_hash [1, 2, 3] ''alice'' ''pw'' = 0"
  "computeVerifier 23 5 0 = 1"
  "computeMultiplier zero_hash 23 5 = 0"
  "computePublicServerValue 23 5 0 1 15 = 19"
  "computeScramblingParameter zero_hash 23 8 19 = 0"
  "computeClientSessionKey 23 5 0 0 0 6 19 = 2"
  "computeServerSessionKey 23 1 0 8 15 = 2"
  "computeClientEvidence zero_hash 8 19 2 = 0"
  "computeServerEvidence zero_hash 8 0 2 = 0"
  "isValidPublicValue 23 (Some 19)"
  by (simp_all add: kernel_defs zero_hash_def)

section \<open>Timeouts\<close>

text \<open>
  Claim C7. With the timeout configured to 0 no session times out: \<open>hasTimedOut\<close> is
  false on the client and on the server for every \<open>lastActivity\<close>, and neither
  \<open>Client.Step2\<close>, \<open>Client.Step3\<close> nor \<open>Server.Step2\<close> fails with its timeout error.
\<close>

theorem zero_timeout_never_times_out:
  assumes "Client.timeout c = 0" and "Server.timeout s = 0"
  shows "Client_hasTimedOut c la w = (False, w) \<and>
         Server_hasTimedOut s la' w' = (False, w') \<and>
         fst (Client_Step2 c userID salt B w) \<noteq> Failure (Errorf ''session timeout'') \<and>
         fst (Client_Step3 c userID M2 w) \<noteq> Failure (Errorf ''session timeout'') \<and>
         fst (Server_Step2 s userID' salt' v A M1 w') \<noteq> Failure (Errorf ''srp timeout'')"
proof -
  have c: "Client_hasTimedOut c t x = (False, x)" for t x
    using assms(1) by (simp add: Client_hasTimedOut_def)
  have s: "Server_hasTimedOut s t x = (False, x)" for t x
    using assms(2) by (simp add: Server_hasTimedOut_def)
  have "fst (Client_Step2 c userID salt B w) \<noteq> Failure (Errorf ''session timeout'')"
    using Client_Step2_timeout_origin [of c userID salt B w] by (auto simp: c)
  moreover have "fst (Client_Step3 c userID M2 w) \<noteq> Failure (Errorf ''session timeout'')"
    using Client_Step3_timeout_origin [of c userID M2 w] by (auto simp: c)
  moreover have "fst (Server_Step2 s userID' salt' v A M1 w') \<noteq> Failure (Errorf ''srp timeout'')"
    using Server_Step2_timeout_origin [of s userID' salt' v A M1 w'] by (auto simp: s)
  ultimately show ?thesis
    using c s by simp
qed

theorem zero_timeout_never_times_out_witness:
  "Client.timeout (toy_client MemoryBackend toy_hash 0) = 0 \<and>
   Server.timeout (toy_server MemoryBackend toy_hash 0) = 0 \<and>
   Client_hasTimedOut (toy_client MemoryBackend toy_hash 0) (- 1000000) (toy_world empty_store)
     = (False, toy_world empty_store) \<and>
   Server_hasTimedOut (toy_server MemoryBackend toy_hash 0) (- 1000000) (toy_world empty_store)
     = (False, toy_world empty_store) \<and>
   fst (Client_Step2 (toy_client MemoryBackend toy_hash 0) ''alice'' (Some [1, 2, 3]) (Some 3)
          (toy_world (store_with ''alice'' (client_session1 (- 1000000) ''pw''))))
     \<noteq> Failure (Errorf ''session timeout'') \<and>
   fst (Client_Step3 (toy_client MemoryBackend toy_hash 0) ''alice'' (Some 1)
          (toy_world (store_with ''alice'' (client_session2 (- 1000000) 8 2 4))))
     \<noteq> Failure (Errorf ''session timeout'') \<and>
   fst (Server_Step2 (toy_server MemoryBackend toy_hash 0) ''alice'' (Some [1, 2, 3]) (Some 10)
          (Some 8) (Some 2) (toy_world (store_with ''alice'' (server_session1 (- 1000000) 3 15))))
     \<noteq> Failure (Errorf ''srp timeout'')"
proof -
  have c: "Client.timeout (toy_client MemoryBackend toy_hash 0) = 0"
    by (simp add: toy_client_def)
  have s: "Server.timeout (toy_server MemoryBackend toy_hash 0) = 0"
    by (simp add: toy_server_def)
  note t = zero_timeout_never_times_out [OF c s, where la = "- 1000000" and la' = "- 1000000"
      and userID = "''alice''" and salt = "Some [1, 2, 3]" and B = "Some 3" and ?M2.0 = "Some 1"
      and userID' = "''alice''" and salt' = "Some [1, 2, 3]" and v = "Some 10"
      and A = "Some 8" and ?M1.0 = "Some 2"]
  from t [where w = "toy_world empty_store" and w' = "toy_world empty_store"]
    t [where w = "toy_world (store_with ''alice'' (client_session1 (- 1000000) ''pw''))"
         and w' = "toy_world (store_with ''alice'' (server_session1 (- 1000000) 3 15))"]
    t [where w = "toy_world (store_with ''alice'' (client_session2 (- 1000000) 8 2 4))"
         and w' = "toy_world empty_store"]
  show ?thesis using c s by blast
qed


section \<open>The salt of the server's second step\<close>

text \<open>
  Claim C8. The salt of \<open>Server.Step2\<close> does not influence its result: with any two
  salts that are not \<^verbatim>\<open>nil\<close> and the same other arguments, backend and world, the step
  returns the same evidence or the same error, and leaves the same world.
\<close>

theorem Server_Step2_ignores_salt:
  "Server_Step2 s userID (Some salt1) verifier publicClientValue clientEvidence w =
   Server_Step2 s userID (Some salt2) verifier publicClientValue clientEvidence w"
  by (simp add: Server_Step2_def)

section \<open>A nil group\<close>

text \<open>
  Claim C9. The options \<open>ClientGroup\<close>, \<open>ServerGroup\<close> and \<open>VerifierGroup\<close> given a
  \<^verbatim>\<open>nil\<close> group panic, and so do the constructors that apply them; they return no
  configuration error. What they check is that neither field of a group that is not
  \<^verbatim>\<open>nil\<close> is \<^verbatim>\<open>nil\<close>.
\<close>

theorem nil_group_panics:
  "ClientGroup None c = Panic \<and> ServerGroup None s = Panic \<and> VerifierGroup None v = Panic \<and>
   NewClient h f b [ClientGroup None] = Panic \<and>
   NewServer h f b' [ServerGroup None] = Panic \<and>
   NewVerifier h [VerifierGroup None] = Panic \<and>
   ClientGroup (Some G) c =
     (if Prime G = None \<or> Generator G = None
      then Failure (Errorf ''the prime and generator must not be nil'')
      else Success (c\<lparr>Client.grp := G\<rparr>)) \<and>
   ServerGroup (Some G) s =
     (if Prime G = None \<or> Generator G = None
      then Failure (Errorf ''the prime and generator must not be nil'')
      else Success (s\<lparr>Server.grp := G\<rparr>)) \<and>
   VerifierGroup (Some G) v =
     (if Prime G = None \<or> Generator G = None
      then Failure (Errorf ''the prime and generator must not be nil'')
      else Success (v\<lparr>Verifier.grp := G\<rparr>))"
  by (simp add: ClientGroup_def ServerGroup_def VerifierGroup_def
        NewClient_def NewServer_def NewVerifier_def)


section \<open>Validation of public values\<close>

text \<open>
  Claim C6. For a prime \<open>N\<close> (here: any positive \<open>N\<close>) \<open>isValidPublicValue N X\<close> holds
  exactly when \<open>X mod N \<noteq> 0\<close>, and not for \<^verbatim>\<open>nil\<close>. So \<open>Client.Step2\<close> refuses a public
  server value \<open>B\<close> that is \<^verbatim>\<open>nil\<close> or has \<open>B mod N = 0\<close>, and \<open>Server.Step2\<close> a public
  client value \<open>A\<close> of that kind, and both do so before they call the backend: the
  world is the one they were given.
\<close>

theorem invalid_public_value_rejected:
  assumes "0 < N"
  shows "(isValidPublicValue N (Some X) \<longleftrightarrow> X mod N \<noteq> 0) \<and> \<not> isValidPublicValue N None \<and>
         (Prime (Client.grp c) = Some N \<and> (B = None \<or> (\<exists>Y. B = Some Y \<and> Y mod N = 0))
            \<longrightarrow> (\<exists>e. Client_Step2 c userID salt B w = (Failure e, w))) \<and>
         (Prime (Server.grp s) = Some N \<and> (A = None \<or> (\<exists>Y. A = Some Y \<and> Y mod N = 0))
            \<longrightarrow> (\<exists>e. Server_Step2 s userID' salt' v A M1 w' = (Failure e, w')))"
  by (auto simp: isValidPublicValue_def Client_Step2_def Server_Step2_def split: option.splits)

theorem invalid_public_value_rejected_witness:
  "(0::int) < 23 \<and>
   Prime (Client.grp (toy_client MemoryBackend toy_hash 0)) = Some 23 \<and>
   Prime (Server.grp (toy_server MemoryBackend toy_hash 0)) = Some 23 \<and>
   (46::int) mod 23 = 0 \<and>
   \<not> isValidPublicValue 23 (Some 46) \<and> isValidPublicValue 23 (Some 8) \<and>
   Client_Step2 (toy_client MemoryBackend toy_hash 0) ''alice'' (Some [1, 2, 3]) (Some 46)
       (toy_world (store_with ''alice'' (client_session1 1000 ''pw'')))
     = (Failure (Errorf ''bad server public value''),
        toy_world (store_with ''alice'' (client_session1 1000 ''pw''))) \<and>
   Server_Step2 (toy_server MemoryBackend toy_hash 0) ''alice'' (Some [1, 2, 3]) (Some 10)
       (Some 46) (Some 2) (toy_world (store_with ''alice'' (server_session1 1000 3 15)))
     = (Failure (Errorf ''bad client public value''),
        toy_world (store_with ''alice'' (server_session1 1000 3 15)))"
proof -
  have N: "(0::int) < 23"
    by simp
  have c: "Prime (Client.grp (toy_client MemoryBackend toy_hash 0)) = Some 23"
    by (simp add: toy_client_def toy_group_def)
  have s: "Prime (Server.grp (toy_server MemoryBackend toy_hash 0)) = Some 23"
    by (simp add: toy_server_def toy_group_def)
  have B: "Some (46::int) = None \<or> (\<exists>Y. Some (46::int) = Some Y \<and> Y mod 23 = 0)"
    by simp
  note t = invalid_public_value_rejected [OF N,
      where c = "toy_client MemoryBackend toy_hash 0" and s = "toy_server MemoryBackend toy_hash 0"
        and B = "Some 46" and A = "Some 46"
        and userID = "''alice''" and salt = "Some [1, 2, 3]"
        and w = "toy_world (store_with ''alice'' (client_session1 1000 ''pw''))"
        and userID' = "''alice''" and salt' = "Some [1, 2, 3]" and v = "Some 10"
        and ?M1.0 = "Some 2"
        and w' = "toy_world (store_with ''alice'' (server_session1 1000 3 15))"]
  have v: "\<not> isValidPublicValue 23 (Some 46)" "isValidPublicValue 23 (Some 8)"
    using t [where X = 46] t [where X = 8] by simp_all
  from t [where X = 46] c B have "\<exists>e. Client_Step2 (toy_client MemoryBackend toy_hash 0) ''alice''
       (Some [1, 2, 3]) (Some 46) (toy_world (store_with ''alice'' (client_session1 1000 ''pw'')))
     = (Failure e, toy_world (store_with ''alice'' (client_session1 1000 ''pw'')))"
    by blast
  then have c2: "Client_Step2 (toy_client MemoryBackend toy_hash 0) ''alice'' (Some [1, 2, 3])
       (Some 46) (toy_world (store_with ''alice'' (client_session1 1000 ''pw'')))
     = (Failure (Errorf ''bad server public value''),
        toy_world (store_with ''alice'' (client_session1 1000 ''pw'')))"
    by (simp add: Client_Step2_def toy_client_def toy_group_def isValidPublicValue_def)
  from t [where X = 46] s B have "\<exists>e. Server_Step2 (toy_server MemoryBackend toy_hash 0) ''alice''
       (Some [1, 2, 3]) (Some 10) (Some 46) (Some 2)
       (toy_world (store_with ''alice'' (server_session1 1000 3 15)))
     = (Failure e, toy_world (store_with ''alice'' (server_session1 1000 3 15)))"
    by blast
  then have s2: "Server_Step2 (toy_server MemoryBackend toy_hash 0) ''alice'' (Some [1, 2, 3])
       (Some 10) (Some 46) (Some 2) (toy_world (store_with ''alice'' (server_session1 1000 3 15)))
     = (Failure (Errorf ''bad client public value''),
        toy_world (store_with ''alice'' (server_session1 1000 3 15)))"
    by (simp add: Server_Step2_def toy_server_def toy_group_def isValidPublicValue_def)
  show ?thesis
    using N c s v c2 s2 by simp
qed

section \<open>Errors of \<open>Put\<close> and \<open>Delete\<close>\<close>

text \<open>
  Claim C3 asks every failure of the backend to reach the caller. An error of \<open>Get\<close>
  does, wrapped. The results of \<open>Put\<close> and \<open>Delete\<close> are dropped: on a backend that
  refuses every write, each of the five steps reports success, with the store as it
  was.
\<close>

theorem write_errors_are_dropped:
  "fst (Put ReadOnlyBackend ''alice'' (client_session1 1000 ''pw'') empty_store)
     = Some (Errorf ''read-only storage'') \<and>
   fst (Delete ReadOnlyBackend ''alice'' (store_with ''alice'' (server_session1 1000 3 15)))
     = Some (Errorf ''read-only storage'') \<and>
   fst (Client_Step1 (toy_client ReadOnlyBackend toy_hash 0) ''alice'' ''pw''
          (toy_world empty_store)) = Success () \<and>
   store (snd (Client_Step1 (toy_client ReadOnlyBackend toy_hash 0) ''alice'' ''pw''
          (toy_world empty_store))) = empty_store \<and>
   fst (Client_Step2 (toy_client ReadOnlyBackend toy_hash 0) ''alice'' (Some [1, 2, 3]) (Some 3)
          (toy_world (store_with ''alice'' (client_session1 1000 ''pw'')))) = Success (8, 2) \<and>
   store (snd (Client_Step2 (toy_client ReadOnlyBackend toy_hash 0) ''alice'' (Some [1, 2, 3])
          (Some 3) (toy_world (store_with ''alice'' (client_session1 1000 ''pw'')))))
     = store_with ''alice'' (client_session1 1000 ''pw'') \<and>
   fst (Client_Step3 (toy_client ReadOnlyBackend toy_hash 0) ''alice'' (Some 1)
          (toy_world (store_with ''alice'' (client_session2 1000 8 2 4)))) = Success () \<and>
   store (snd (Client_Step3 (toy_client ReadOnlyBackend toy_hash 0) ''alice'' (Some 1)
          (toy_world (store_with ''alice'' (client_session2 1000 8 2 4)))))
     = store_with ''alice'' (client_session2 1000 8 2 4) \<and>
   fst (Server_Step1 (toy_server ReadOnlyBackend toy_hash 0) ''alice'' (Some [1, 2, 3]) (Some 10)
          (toy_world empty_store)) = Success 3 \<and>
   store (snd (Server_Step1 (toy_server ReadOnlyBackend toy_hash 0) ''alice'' (Some [1, 2, 3])
          (Some 10) (toy_world empty_store))) = empty_store \<and>
   fst (Server_Step2 (toy_server ReadOnlyBackend toy_hash 0) ''alice'' (Some [1, 2, 3]) (Some 10)
          (Some 8) (Some 2) (toy_world (store_with ''alice'' (server_session1 1000 3 15))))
     = Success 1 \<and>
   store (snd (Server_Step2 (toy_server ReadOnlyBackend toy_hash 0) ''alice'' (Some [1, 2, 3])
          (Some 10) (Some 8) (Some 2) (toy_world (store_with ''alice'' (server_session1 1000 3 15)))))
     = store_with ''alice'' (server_session1 1000 3 15)"
proof -
  have p: "fst (Put ReadOnlyBackend ''alice'' (client_session1 1000 ''pw'') empty_store)
     = Some (Errorf ''read-only storage'')"
    by (simp add: ReadOnlyBackend_def)
  have d: "fst (Delete ReadOnlyBackend ''alice'' (store_with ''alice'' (server_session1 1000 3 15)))
     = Some (Errorf ''read-only storage'')"
    by (simp add: ReadOnlyBackend_def)
  have c1: "Client_Step1 (toy_client ReadOnlyBackend toy_hash 0) ''alice'' ''pw''
          (toy_world empty_store)
      = (Success (), (toy_world empty_store)
           \<lparr>calls := [CPut ''alice'' (client_session1 1000 ''pw'')], ticks := 1\<rparr>)"
    by (simp add: step_defs toy_defs toy_values)
  have c2: "Client_Step2 (toy_client ReadOnlyBackend toy_hash 0) ''alice'' (Some [1, 2, 3]) (Some 3)
          (toy_world (store_with ''alice'' (client_session1 1000 ''pw'')))
      = (Success (8, 2), (toy_world (store_with ''alice'' (client_session1 1000 ''pw'')))
           \<lparr>calls := [CGet ''alice'', CPut ''alice'' (client_session2 1000 8 2 4)],
            ticks := 1, draws := 1\<rparr>)"
    by (simp add: step_defs toy_defs toy_values)
  have c3: "Client_Step3 (toy_client ReadOnlyBackend toy_hash 0) ''alice'' (Some 1)
          (toy_world (store_with ''alice'' (client_session2 1000 8 2 4)))
      = (Success (), (toy_world (store_with ''alice'' (client_session2 1000 8 2 4)))
           \<lparr>calls := [CGet ''alice'', CDelete ''alice'']\<rparr>)"
    by (simp add: step_defs toy_defs toy_values)
  have s1: "Server_Step1 (toy_server ReadOnlyBackend toy_hash 0) ''alice'' (Some [1, 2, 3]) (Some 10)
          (toy_world empty_store)
      = (Success 3, (toy_world empty_store)
           \<lparr>calls := [CPut ''alice'' (server_session1 1000 3 15)], ticks := 1, draws := 1\<rparr>)"
    by (simp add: step_defs toy_defs toy_values)
  have s2: "Server_Step2 (toy_server ReadOnlyBackend toy_hash 0) ''alice'' (Some [1, 2, 3]) (Some 10)
          (Some 8) (Some 2) (toy_world (store_with ''alice'' (server_session1 1000 3 15)))
      = (Success 1, (toy_world (store_with ''alice'' (server_session1 1000 3 15)))
           \<lparr>calls := [CGet ''alice'', CDelete ''alice'']\<rparr>)"
    by (simp add: step_defs toy_defs toy_values)
  show ?thesis
    unfolding c1 c2 c3 s1 s2 using p d by (simp add: toy_world_def)
qed


text \<open>The timeout check looks at the clock only, and draws no private value.\<close>

lemma Client_hasTimedOut_after_Get [simp]:
  "fst (Client_hasTimedOut c la (w\<lparr>store := st, calls := cs\<rparr>)) = fst (Client_hasTimedOut c la w)"
  by (simp add: Client_hasTimedOut_def time_Now_def)

lemma Server_hasTimedOut_after_Get [simp]:
  "fst (Server_hasTimedOut s la (w\<lparr>store := st, calls := cs\<rparr>)) = fst (Server_hasTimedOut s la w)"
  by (simp add: Server_hasTimedOut_def time_Now_def)

lemma Client_hasTimedOut_draws [simp]:
  "draws (snd (Client_hasTimedOut c la w)) = draws w"
  by (simp add: Client_hasTimedOut_def time_Now_def)

lemma Client_Step2_passes:
  assumes "userID \<noteq> []"
    and "Prime (Client.grp c) = Some N" "Generator (Client.grp c) = Some g"
    and "isValidPublicValue N (Some B)"
    and "Get (Client.backend c) userID (store w) = (Inr m, st)"
    and "m ''state'' = Some (VState step1)" "m ''lastActivity'' = Some (VTime la)"
    and "m ''password'' = Some (VString P)"
    and "\<not> fst (Client_hasTimedOut c la w)"
    and "Client.generatePrivateValue c N (draws w) = Inr a"
  shows "fst (Client_Step2 c userID (Some salt) (Some B) w) =
     (let A = computePublicClientValue N g a;
          u = computeScramblingParameter (Client.fHash c) N A B;
          S = computeClientSessionKey N g (computeMultiplier (Client.fHash c) N g)
                (Client.computeX c (Client.fHash c) salt userID P) u a B
      in Success (A, computeClientEvidence (Client.fHash c) A B S))"
proof -
  let ?w1 = "w\<lparr>store := st, calls := calls w @ [CGet userID]\<rparr>"
  let ?w2 = "snd (Client_hasTimedOut c la ?w1)"
  have g: "backend_Get (Client.backend c) userID w = (Inr m, ?w1)"
    using assms(5) by (simp add: backend_Get_def)
  have t: "Client_hasTimedOut c la ?w1 = (False, ?w2)"
    using assms(9) by (simp add: prod_eq_iff)
  have d: "draw (Client.generatePrivateValue c) N ?w2 = (Inr a, ?w2\<lparr>draws := Suc (draws ?w2)\<rparr>)"
    using assms(10) by (simp add: draw_def)
  show ?thesis
    by (rule Client_Step2_checked [OF assms(1-4) g assms(6-8) t d])
qed

lemma Client_Step3_passes:
  assumes "userID \<noteq> []"
    and "Get (Client.backend c) userID (store w) = (Inr m, st)"
    and "m ''state'' = Some (VState step2)" "m ''lastActivity'' = Some (VTime la)"
    and "m ''publicClientValue'' = Some (VBigInt A)" "m ''clientEvidence'' = Some (VBigInt M1)"
    and "m ''sessionKey'' = Some (VBigInt S)"
    and "\<not> fst (Client_hasTimedOut c la w)"
  shows "fst (Client_Step3 c userID (Some M2) w) =
     (if computeServerEvidence (Client.fHash c) A M1 S \<noteq> M2
      then Failure (Errorf ''bad server credentials'') else Success ())"
proof -
  let ?w1 = "w\<lparr>store := st, calls := calls w @ [CGet userID]\<rparr>"
  let ?w2 = "snd (Client_hasTimedOut c la ?w1)"
  have g: "backend_Get (Client.backend c) userID w = (Inr m, ?w1)"
    using assms(2) by (simp add: backend_Get_def)
  have t: "Client_hasTimedOut c la ?w1 = (False, ?w2)"
    using assms(8) by (simp add: prod_eq_iff)
  show ?thesis
    by (simp add: Client_Step3_checked [OF assms(1) g assms(3-7) t])
qed

lemma Server_Step2_passes:
  assumes "userID \<noteq> []"
    and "Prime (Server.grp s) = Some N"
    and "isValidPublicValue N (Some A)"
    and "Get (Server.backend s) userID (store w) = (Inr m, st)"
    and "m ''state'' = Some (VState step1)" "m ''lastActivity'' = Some (VTime la)"
    and "m ''publicServerValue'' = Some (VBigInt B)"
    and "m ''privateServerValue'' = Some (VBigInt b)"
    and "\<not> fst (Server_hasTimedOut s la w)"
  shows "fst (Server_Step2 s userID (Some salt) (Some v) (Some A) (Some M1) w) =
     (let u = computeScramblingParameter (Server.fHash s) N A B;
          S = computeServerSessionKey N v u A b
      in if computeClientEvidence (Server.fHash s) A B S \<noteq> M1
         then Failure (Errorf ''bad client credentials'')
         else Success (computeServerEvidence (Server.fHash s) A M1 S))"
proof -
  let ?w1 = "w\<lparr>store := st, calls := calls w @ [CGet userID]\<rparr>"
  let ?w2 = "snd (Server_hasTimedOut s la ?w1)"
  have g: "backend_Get (Server.backend s) userID w = (Inr m, ?w1)"
    using assms(4) by (simp add: backend_Get_def)
  have t: "Server_hasTimedOut s la ?w1 = (False, ?w2)"
    using assms(9) by (simp add: prod_eq_iff)
  show ?thesis
    by (simp add: Server_Step2_checked [OF assms(1-3) g assms(5-8) t] Let_def)
qed


text \<open>What the second steps leave behind once they have passed the same checks.\<close>

lemma Client_Step2_passes_world:
  assumes "userID \<noteq> []"
    and "Prime (Client.grp c) = Some N" "Generator (Client.grp c) = Some g"
    and "isValidPublicValue N (Some B)"
    and "Get (Client.backend c) userID (store w) = (Inr m, st)"
    and "m ''state'' = Some (VState step1)" "m ''lastActivity'' = Some (VTime la)"
    and "m ''password'' = Some (VString P)"
    and "\<not> fst (Client_hasTimedOut c la w)"
    and "Client.generatePrivateValue c N (draws w) = Inr a"
  shows "(let A = computePublicClientValue N g a;
          u = computeScramblingParameter (Client.fHash c) N A B;
          S = computeClientSessionKey N g (computeMultiplier (Client.fHash c) N g)
                (Client.computeX c (Client.fHash c) salt userID P) u a B;
          w2 = snd (Client_hasTimedOut c la w);
          sess = client_session2 (clock w2 (ticks w2)) A
                   (computeClientEvidence (Client.fHash c) A B S) S
      in calls (snd (Client_Step2 c userID (Some salt) (Some B) w))
           = calls w @ [CGet userID, CPut userID sess] \<and>
         store (snd (Client_Step2 c userID (Some salt) (Some B) w))
           = snd (Put (Client.backend c) userID sess st))"
  using assms
  by (auto simp: Client_Step2_def Let_def reader_defs world_defs Client_hasTimedOut_def
        client_session2_def split: prod.splits if_splits)

lemma Server_Step2_passes_world:
  assumes "userID \<noteq> []"
    and "Prime (Server.grp s) = Some N"
    and "isValidPublicValue N (Some A)"
    and "Get (Server.backend s) userID (store w) = (Inr m, st)"
    and "m ''state'' = Some (VState step1)" "m ''lastActivity'' = Some (VTime la)"
    and "m ''publicServerValue'' = Some (VBigInt B)"
    and "m ''privateServerValue'' = Some (VBigInt b)"
    and "\<not> fst (Server_hasTimedOut s la w)"
  shows "(let u = computeScramblingParameter (Server.fHash s) N A B;
          S = computeServerSessionKey N v u A b
      in if computeClientEvidence (Server.fHash s) A B S \<noteq> M1
         then calls (snd (Server_Step2 s userID (Some salt) (Some v) (Some A) (Some M1) w))
                = calls w @ [CGet userID] \<and>
              store (snd (Server_Step2 s userID (Some salt) (Some v) (Some A) (Some M1) w)) = st
         else calls (snd (Server_Step2 s userID (Some salt) (Some v) (Some A) (Some M1) w))
                = calls w @ [CGet userID, CDelete userID] \<and>
              store (snd (Server_Step2 s userID (Some salt) (Some v) (Some A) (Some M1) w))
                = snd (Delete (Server.backend s) userID st))"
  using assms
  by (auto simp: Server_Step2_def Let_def reader_defs world_defs Server_hasTimedOut_def
        split: prod.splits if_splits)

section \<open>The boundary of the timeout\<close>

text \<open>
  Claim C10. With a timeout \<open>t > 0\<close> a session has timed out exactly when the clock
  reads strictly more than \<open>lastActivity + t\<close>. When it reads \<open>lastActivity + t\<close>
  itself, \<open>hasTimedOut\<close> is false on the client and on the server, the second steps do
  not fail with the timeout error, and the step is accepted: \<open>Client.Step2\<close> on a session
  in state \<open>step1\<close> returns \<open>(A, M1)\<close>, \<open>Client.Step3\<close> and \<open>Server.Step2\<close> given the
  evidence they recompute return success.
\<close>

theorem timeout_is_strict:
  assumes "0 < Client.timeout c" and "0 < Server.timeout s"
  shows "fst (Client_hasTimedOut c la w) = (la + Client.timeout c < clock w (ticks w)) \<and>
         fst (Server_hasTimedOut s la' w') = (la' + Server.timeout s < clock w' (ticks w')) \<and>
         (clock w (ticks w) = la + Client.timeout c \<longrightarrow> \<not> fst (Client_hasTimedOut c la w)) \<and>
         (clock w' (ticks w') = la' + Server.timeout s \<longrightarrow> \<not> fst (Server_hasTimedOut s la' w')) \<and>
         (Get (Client.backend c) userID (store w) = (Inr m, st) \<and>
          m ''lastActivity'' = Some (VTime la) \<and> clock w (ticks w) = la + Client.timeout c
            \<longrightarrow> fst (Client_Step2 c userID salt B w) \<noteq> Failure (Errorf ''session timeout'')) \<and>
         (Get (Server.backend s) userID' (store w') = (Inr m', st') \<and>
          m' ''lastActivity'' = Some (VTime la') \<and> clock w' (ticks w') = la' + Server.timeout s
            \<longrightarrow> fst (Server_Step2 s userID' salt' v A M1 w') \<noteq> Failure (Errorf ''srp timeout'')) \<and>
         (userID \<noteq> [] \<and> Prime (Client.grp c) = Some N \<and> Generator (Client.grp c) = Some g \<and>
          isValidPublicValue N (Some B1) \<and>
          Get (Client.backend c) userID (store w) = (Inr m, st) \<and>
          m ''state'' = Some (VState step1) \<and> m ''lastActivity'' = Some (VTime la) \<and>
          m ''password'' = Some (VString P) \<and> clock w (ticks w) = la + Client.timeout c \<and>
          Client.generatePrivateValue c N (draws w) = Inr a
            \<longrightarrow> fst (Client_Step2 c userID (Some salt1) (Some B1) w) =
                 (let A = computePublicClientValue N g a;
                      u = computeScramblingParameter (Client.fHash c) N A B1;
                      S = computeClientSessionKey N g (computeMultiplier (Client.fHash c) N g)
                            (Client.computeX c (Client.fHash c) salt1 userID P) u a B1
                  in Success (A, computeClientEvidence (Client.fHash c) A B1 S))) \<and>
         (userID \<noteq> [] \<and> Get (Client.backend c) userID (store w) = (Inr m, st) \<and>
          m ''state'' = Some (VState step2) \<and> m ''lastActivity'' = Some (VTime la) \<and>
          m ''publicClientValue'' = Some (VBigInt A3) \<and>
          m ''clientEvidence'' = Some (VBigInt M1c) \<and> m ''sessionKey'' = Some (VBigInt S3) \<and>
          clock w (ticks w) = la + Client.timeout c
            \<longrightarrow> fst (Client_Step3 c userID
                       (Some (computeServerEvidence (Client.fHash c) A3 M1c S3)) w) = Success ()) \<and>
         (userID' \<noteq> [] \<and> Prime (Server.grp s) = Some N' \<and> isValidPublicValue N' (Some A1) \<and>
          Get (Server.backend s) userID' (store w') = (Inr m', st') \<and>
          m' ''state'' = Some (VState step1) \<and> m' ''lastActivity'' = Some (VTime la') \<and>
          m' ''publicServerValue'' = Some (VBigInt B2) \<and>
          m' ''privateServerValue'' = Some (VBigInt b) \<and>
          clock w' (ticks w') = la' + Server.timeout s
            \<longrightarrow> fst (Server_Step2 s userID' (Some salt2) (Some v1) (Some A1)
                       (Some (computeClientEvidence (Server.fHash s) A1 B2
                          (computeServerSessionKey N' v1
                             (computeScramblingParameter (Server.fHash s) N' A1 B2) A1 b))) w')
                 = Success (computeServerEvidence (Server.fHash s) A1
                      (computeClientEvidence (Server.fHash s) A1 B2
                          (computeServerSessionKey N' v1
                             (computeScramblingParameter (Server.fHash s) N' A1 B2) A1 b))
                      (computeServerSessionKey N' v1
                             (computeScramblingParameter (Server.fHash s) N' A1 B2) A1 b)))"
proof -
  have c: "fst (Client_hasTimedOut c t x) = (t + Client.timeout c < clock x (ticks x))" for t x
    using assms(1)
    by (simp add: Client_hasTimedOut_def time_Now_def time_After_def time_Add_def)
  have s: "fst (Server_hasTimedOut s t x) = (t + Server.timeout s < clock x (ticks x))" for t x
    using assms(2)
    by (simp add: Server_hasTimedOut_def time_Now_def time_After_def time_Add_def)
  have c2: "fst (Client_Step2 c userID salt B w) \<noteq> Failure (Errorf ''session timeout'')"
    if g: "Get (Client.backend c) userID (store w) = (Inr m, st)"
      and l: "m ''lastActivity'' = Some (VTime la)"
      and b: "clock w (ticks w) = la + Client.timeout c"
  proof
    assume "fst (Client_Step2 c userID salt B w) = Failure (Errorf ''session timeout'')"
    then obtain n w1 t w2 where
      "backend_Get (Client.backend c) userID w = (Inr n, w1)"
      "n ''lastActivity'' = Some (VTime t)" "Client_hasTimedOut c t w1 = (True, w2)"
      using Client_Step2_timeout_origin by blast
    with g l have "fst (Client_hasTimedOut c la (w\<lparr>store := st, calls := calls w @ [CGet userID]\<rparr>))"
      by (auto simp: backend_Get_def)
    with b show False
      by (simp add: c)
  qed
  have s2: "fst (Server_Step2 s userID' salt' v A M1 w') \<noteq> Failure (Errorf ''srp timeout'')"
    if g: "Get (Server.backend s) userID' (store w') = (Inr m', st')"
      and l: "m' ''lastActivity'' = Some (VTime la')"
      and b: "clock w' (ticks w') = la' + Server.timeout s"
  proof
    assume "fst (Server_Step2 s userID' salt' v A M1 w') = Failure (Errorf ''srp timeout'')"
    then obtain n w1 t w2 where
      "backend_Get (Server.backend s) userID' w' = (Inr n, w1)"
      "n ''lastActivity'' = Some (VTime t)" "Server_hasTimedOut s t w1 = (True, w2)"
      using Server_Step2_timeout_origin by blast
    with g l have "fst (Server_hasTimedOut s la' (w'\<lparr>store := st', calls := calls w' @ [CGet userID']\<rparr>))"
      by (auto simp: backend_Get_def)
    with b show False
      by (simp add: s)
  qed
  have a2: "fst (Client_Step2 c userID (Some salt1) (Some B1) w) =
                 (let A = computePublicClientValue N g a;
                      u = computeScramblingParameter (Client.fHash c) N A B1;
                      S = computeClientSessionKey N g (computeMultiplier (Client.fHash c) N g)
                            (Client.computeX c (Client.fHash c) salt1 userID P) u a B1
                  in Success (A, computeClientEvidence (Client.fHash c) A B1 S))"
    if "userID \<noteq> []" "Prime (Client.grp c) = Some N" "Generator (Client.grp c) = Some g"
      "isValidPublicValue N (Some B1)" "Get (Client.backend c) userID (store w) = (Inr m, st)"
      "m ''state'' = Some (VState step1)" "m ''lastActivity'' = Some (VTime la)"
      "m ''password'' = Some (VString P)" "clock w (ticks w) = la + Client.timeout c"
      "Client.generatePrivateValue c N (draws w) = Inr a"
  proof -
    have n: "\<not> fst (Client_hasTimedOut c la w)"
      using that(9) by (simp add: c)
    show ?thesis
      by (rule Client_Step2_passes [OF that(1-8) n that(10)])
  qed
  have a3: "fst (Client_Step3 c userID (Some (computeServerEvidence (Client.fHash c) A3 M1c S3)) w)
      = Success ()"
    if "userID \<noteq> []" "Get (Client.backend c) userID (store w) = (Inr m, st)"
      "m ''state'' = Some (VState step2)" "m ''lastActivity'' = Some (VTime la)"
      "m ''publicClientValue'' = Some (VBigInt A3)" "m ''clientEvidence'' = Some (VBigInt M1c)"
      "m ''sessionKey'' = Some (VBigInt S3)" "clock w (ticks w) = la + Client.timeout c"
  proof -
    have n: "\<not> fst (Client_hasTimedOut c la w)"
      using that(8) by (simp add: c)
    show ?thesis
      by (simp add: Client_Step3_passes [OF that(1-7) n])
  qed
  have as: "fst (Server_Step2 s userID' (Some salt2) (Some v1) (Some A1)
                       (Some (computeClientEvidence (Server.fHash s) A1 B2
                          (computeServerSessionKey N' v1
                             (computeScramblingParameter (Server.fHash s) N' A1 B2) A1 b))) w')
                 = Success (computeServerEvidence (Server.fHash s) A1
                      (computeClientEvidence (Server.fHash s) A1 B2
                          (computeServerSessionKey N' v1
                             (computeScramblingParameter (Server.fHash s) N' A1 B2) A1 b))
                      (computeServerSessionKey N' v1
                             (computeScramblingParameter (Server.fHash s) N' A1 B2) A1 b))"
    if "userID' \<noteq> []" "Prime (Server.grp s) = Some N'" "isValidPublicValue N' (Some A1)"
      "Get (Server.backend s) userID' (store w') = (Inr m', st')"
      "m' ''state'' = Some (VState step1)" "m' ''lastActivity'' = Some (VTime la')"
      "m' ''publicServerValue'' = Some (VBigInt B2)"
      "m' ''privateServerValue'' = Some (VBigInt b)"
      "clock w' (ticks w') = la' + Server.timeout s"
  proof -
    have n: "\<not> fst (Server_hasTimedOut s la' w')"
      using that(9) by (simp add: s)
    show ?thesis
      by (simp add: Server_Step2_passes [OF that(1-8) n] Let_def)
  qed
  have h: "fst (Client_hasTimedOut c la w) = (la + Client.timeout c < clock w (ticks w)) \<and>
         fst (Server_hasTimedOut s la' w') = (la' + Server.timeout s < clock w' (ticks w')) \<and>
         (clock w (ticks w) = la + Client.timeout c \<longrightarrow> \<not> fst (Client_hasTimedOut c la w)) \<and>
         (clock w' (ticks w') = la' + Server.timeout s \<longrightarrow> \<not> fst (Server_hasTimedOut s la' w'))"
    by (simp add: c s)
  show ?thesis
    using h c2 s2 a2 a3 as by blast
qed

theorem timeout_is_strict_witness:
  "0 < Client.timeout (toy_client MemoryBackend toy_hash 50) \<and>
   0 < Server.timeout (toy_server MemoryBackend toy_hash 50) \<and>
   clock (toy_world (store_with ''alice'' (client_session1 950 ''pw'')))
     (ticks (toy_world (store_with ''alice'' (client_session1 950 ''pw''))))
     = 950 + Client.timeout (toy_client MemoryBackend toy_hash 50) \<and>
   \<not> fst (Client_hasTimedOut (toy_client MemoryBackend toy_hash 50) 950
            (toy_world (store_with ''alice'' (client_session1 950 ''pw'')))) \<and>
   fst (Client_hasTimedOut (toy_client MemoryBackend toy_hash 50) 949
            (toy_world (store_with ''alice'' (client_session1 950 ''pw'')))) \<and>
   \<not> fst (Server_hasTimedOut (toy_server MemoryBackend toy_hash 50) 950
            (toy_world (store_with ''alice'' (server_session1 950 3 15)))) \<and>
   fst (Server_hasTimedOut (toy_server MemoryBackend toy_hash 50) 949
            (toy_world (store_with ''alice'' (server_session1 950 3 15)))) \<and>
   fst (Client_Step2 (toy_client MemoryBackend toy_hash 50) ''alice'' (Some [1, 2, 3]) (Some 3)
          (toy_world (store_with ''alice'' (client_session1 950 ''pw''))))
     = Success (8, 2) \<and>
   fst (Client_Step3 (toy_client MemoryBackend toy_hash 50) ''alice'' (Some 1)
          (toy_world (store_with ''alice'' (client_session2 950 8 2 4))))
     = Success () \<and>
   fst (Server_Step2 (toy_server MemoryBackend toy_hash 50) ''alice'' (Some [1, 2, 3]) (Some 10)
          (Some 8) (Some 2) (toy_world (store_with ''alice'' (server_session1 950 3 15))))
     = Success 1"
proof -
  let ?c = "toy_client MemoryBackend toy_hash 50"
  let ?s = "toy_server MemoryBackend toy_hash 50"
  let ?w2 = "toy_world (store_with ''alice'' (client_session1 950 ''pw''))"
  let ?w3 = "toy_world (store_with ''alice'' (client_session2 950 8 2 4))"
  let ?ws = "toy_world (store_with ''alice'' (server_session1 950 3 15))"
  have c: "0 < Client.timeout ?c"
    by (simp add: toy_client_def)
  have s: "0 < Server.timeout ?s"
    by (simp add: toy_server_def)
  note t = timeout_is_strict [OF c s, where userID = "''alice''" and salt = "Some [1, 2, 3]"
      and B = "Some 3" and userID' = "''alice''" and salt' = "Some [1, 2, 3]" and v = "Some 10"
      and A = "Some 8" and ?M1.0 = "Some 2" and w' = ?ws
      and m' = "server_session1 950 3 15"
      and st' = "store_with ''alice'' (server_session1 950 3 15)"
      and N = 23 and g = 5 and ?B1.0 = 3 and P = "''pw''" and a = 6 and ?salt1.0 = "[1, 2, 3]"
      and ?A3.0 = 8 and ?M1c.0 = 2 and ?S3.0 = 4
      and N' = 23 and ?A1.0 = 8 and ?B2.0 = 3 and b = 15 and ?salt2.0 = "[1, 2, 3]" and ?v1.0 = 10]
  note t2 = t [where w = ?w2 and m = "client_session1 950 ''pw''"
      and st = "store_with ''alice'' (client_session1 950 ''pw'')"]
  note t3 = t [where w = ?w3 and m = "client_session2 950 8 2 4"
      and st = "store_with ''alice'' (client_session2 950 8 2 4)" and la = 950 and la' = 950]
  have h: "clock ?w2 (ticks ?w2) = 950 + Client.timeout ?c"
    "\<not> fst (Client_hasTimedOut ?c 950 ?w2)" "fst (Client_hasTimedOut ?c 949 ?w2)"
    "\<not> fst (Server_hasTimedOut ?s 950 ?ws)" "fst (Server_hasTimedOut ?s 949 ?ws)"
    using t2 [where la = 950 and la' = 950] t2 [where la = 949 and la' = 949]
    by (simp_all add: toy_defs)
  have c2: "fst (Client_Step2 ?c ''alice'' (Some [1, 2, 3]) (Some 3) ?w2) = Success (8, 2)"
    using t2 [where la = 950 and la' = 950]
    by (simp add: toy_defs toy_values)
  have c3: "fst (Client_Step3 ?c ''alice'' (Some 1) ?w3) = Success ()"
    using t3 by (simp add: toy_defs toy_values)
  have s2: "fst (Server_Step2 ?s ''alice'' (Some [1, 2, 3]) (Some 10) (Some 8) (Some 2) ?ws)
      = Success 1"
    using t2 [where la = 950 and la' = 950]
    by (simp add: toy_defs toy_values)
  show ?thesis
    using c s h c2 c3 s2 by simp
qed

section \<open>A failing step writes nothing\<close>

text \<open>
  Claim C4. When \<open>Client.Step2\<close>, \<open>Client.Step3\<close> or \<open>Server.Step2\<close> returns an error,
  it has issued no \<open>Put\<close> and no \<open>Delete\<close>: the log of backend calls has grown by
  nothing or by the one \<open>Get\<close>, and the store is what it was or what that \<open>Get\<close> left.
  In particular \<open>Server.Step2\<close> given an \<open>M1\<close> other than the one it recomputes fails
  with "bad client credentials", and \<open>Client.Step3\<close> given an \<open>M2\<close> other than the one it
  recomputes fails with "bad server credentials"; neither deletes the session.
\<close>

theorem failing_step_writes_nothing:
  "(fst (Client_Step2 c userID salt B w) = Failure e \<longrightarrow>
      (calls (snd (Client_Step2 c userID salt B w)) = calls w \<or>
       calls (snd (Client_Step2 c userID salt B w)) = calls w @ [CGet userID]) \<and>
      (store (snd (Client_Step2 c userID salt B w)) = store w \<or>
       store (snd (Client_Step2 c userID salt B w)) = snd (Get (Client.backend c) userID (store w)))) \<and>
   (fst (Client_Step3 c userID M2 w) = Failure e \<longrightarrow>
      (calls (snd (Client_Step3 c userID M2 w)) = calls w \<or>
       calls (snd (Client_Step3 c userID M2 w)) = calls w @ [CGet userID]) \<and>
      (store (snd (Client_Step3 c userID M2 w)) = store w \<or>
       store (snd (Client_Step3 c userID M2 w)) = snd (Get (Client.backend c) userID (store w)))) \<and>
   (fst (Server_Step2 s userID' salt' v A M1 w') = Failure e' \<longrightarrow>
      (calls (snd (Server_Step2 s userID' salt' v A M1 w')) = calls w' \<or>
       calls (snd (Server_Step2 s userID' salt' v A M1 w')) = calls w' @ [CGet userID']) \<and>
      (store (snd (Server_Step2 s userID' salt' v A M1 w')) = store w' \<or>
       store (snd (Server_Step2 s userID' salt' v A M1 w'))
         = snd (Get (Server.backend s) userID' (store w')))) \<and>
   (userID' \<noteq> [] \<and> Prime (Server.grp s) = Some N \<and> isValidPublicValue N (Some A1) \<and>
    Get (Server.backend s) userID' (store w') = (Inr m', st') \<and>
    m' ''state'' = Some (VState step1) \<and> m' ''lastActivity'' = Some (VTime la') \<and>
    m' ''publicServerValue'' = Some (VBigInt B1) \<and> m' ''privateServerValue'' = Some (VBigInt b) \<and>
    \<not> fst (Server_hasTimedOut s la' w') \<and>
    computeClientEvidence (Server.fHash s) A1 B1
      (computeServerSessionKey N v1 (computeScramblingParameter (Server.fHash s) N A1 B1) A1 b)
      \<noteq> M1'
    \<longrightarrow> fst (Server_Step2 s userID' (Some salt1) (Some v1) (Some A1) (Some M1') w')
          = Failure (Errorf ''bad client credentials'')) \<and>
   (userID \<noteq> [] \<and> Get (Client.backend c) userID (store w) = (Inr m, st) \<and>
    m ''state'' = Some (VState step2) \<and> m ''lastActivity'' = Some (VTime la) \<and>
    m ''publicClientValue'' = Some (VBigInt A2) \<and> m ''clientEvidence'' = Some (VBigInt M1a) \<and>
    m ''sessionKey'' = Some (VBigInt S) \<and> \<not> fst (Client_hasTimedOut c la w) \<and>
    computeServerEvidence (Client.fHash c) A2 M1a S \<noteq> M2'
    \<longrightarrow> fst (Client_Step3 c userID (Some M2') w) = Failure (Errorf ''bad server credentials''))"
proof -
  have c2: "(calls (snd (Client_Step2 c userID salt B w)) = calls w \<or>
       calls (snd (Client_Step2 c userID salt B w)) = calls w @ [CGet userID]) \<and>
      (store (snd (Client_Step2 c userID salt B w)) = store w \<or>
       store (snd (Client_Step2 c userID salt B w)) = snd (Get (Client.backend c) userID (store w)))"
    if "fst (Client_Step2 c userID salt B w) = Failure e"
    using that Client_Step2_Failure_calls [of c userID salt B w e]
      Client_Step2_Failure_store [of c userID salt B w e]
    by (cases "Client_Step2 c userID salt B w") simp
  have c3: "(calls (snd (Client_Step3 c userID M2 w)) = calls w \<or>
       calls (snd (Client_Step3 c userID M2 w)) = calls w @ [CGet userID]) \<and>
      (store (snd (Client_Step3 c userID M2 w)) = store w \<or>
       store (snd (Client_Step3 c userID M2 w)) = snd (Get (Client.backend c) userID (store w)))"
    if "fst (Client_Step3 c userID M2 w) = Failure e"
    using that Client_Step3_Failure_calls [of c userID M2 w e]
      Client_Step3_Failure_store [of c userID M2 w e]
    by (cases "Client_Step3 c userID M2 w") simp
  have s2: "(calls (snd (Server_Step2 s userID' salt' v A M1 w')) = calls w' \<or>
       calls (snd (Server_Step2 s userID' salt' v A M1 w')) = calls w' @ [CGet userID']) \<and>
      (store (snd (Server_Step2 s userID' salt' v A M1 w')) = store w' \<or>
       store (snd (Server_Step2 s userID' salt' v A M1 w'))
         = snd (Get (Server.backend s) userID' (store w')))"
    if "fst (Server_Step2 s userID' salt' v A M1 w') = Failure e'"
    using that Server_Step2_Failure_calls [of s userID' salt' v A M1 w' e']
      Server_Step2_Failure_store [of s userID' salt' v A M1 w' e']
    by (cases "Server_Step2 s userID' salt' v A M1 w'") simp
  have sm: "fst (Server_Step2 s userID' (Some salt1) (Some v1) (Some A1) (Some M1') w')
          = Failure (Errorf ''bad client credentials'')"
    if "userID' \<noteq> []" "Prime (Server.grp s) = Some N" "isValidPublicValue N (Some A1)"
      "Get (Server.backend s) userID' (store w') = (Inr m', st')"
      "m' ''state'' = Some (VState step1)" "m' ''lastActivity'' = Some (VTime la')"
      "m' ''publicServerValue'' = Some (VBigInt B1)" "m' ''privateServerValue'' = Some (VBigInt b)"
      "\<not> fst (Server_hasTimedOut s la' w')"
      "computeClientEvidence (Server.fHash s) A1 B1
        (computeServerSessionKey N v1 (computeScramblingParameter (Server.fHash s) N A1 B1) A1 b)
        \<noteq> M1'"
    using that(10) by (simp add: Server_Step2_passes [OF that(1-9)])
  have cm: "fst (Client_Step3 c userID (Some M2') w) = Failure (Errorf ''bad server credentials'')"
    if "userID \<noteq> []" "Get (Client.backend c) userID (store w) = (Inr m, st)"
      "m ''state'' = Some (VState step2)" "m ''lastActivity'' = Some (VTime la)"
      "m ''publicClientValue'' = Some (VBigInt A2)" "m ''clientEvidence'' = Some (VBigInt M1a)"
      "m ''sessionKey'' = Some (VBigInt S)" "\<not> fst (Client_hasTimedOut c la w)"
      "computeServerEvidence (Client.fHash c) A2 M1a S \<noteq> M2'"
    using that(9) by (simp add: Client_Step3_passes [OF that(1-8)])
  show ?thesis
    using c2 c3 s2 sm cm by blast
qed


theorem failing_step_writes_nothing_witness:
  "fst (Client_Step2 (toy_client MemoryBackend toy_hash 0) ''alice'' (Some [1, 2, 3]) (Some 3)
          (toy_world (store_with ''alice'' (client_session2 1000 8 2 4))))
     = Failure (could_not_read ''password'') \<and>
   calls (snd (Client_Step2 (toy_client MemoryBackend toy_hash 0) ''alice'' (Some [1, 2, 3]) (Some 3)
          (toy_world (store_with ''alice'' (client_session2 1000 8 2 4)))))
     = [CGet ''alice''] \<and>
   store (snd (Client_Step2 (toy_client MemoryBackend toy_hash 0) ''alice'' (Some [1, 2, 3]) (Some 3)
          (toy_world (store_with ''alice'' (client_session2 1000 8 2 4)))))
     = store_with ''alice'' (client_session2 1000 8 2 4) \<and>
   computeServerEvidence toy_hash 8 2 4 \<noteq> 7 \<and>
   fst (Client_Step3 (toy_client MemoryBackend toy_hash 0) ''alice'' (Some 7)
          (toy_world (store_with ''alice'' (client_session2 1000 8 2 4))))
     = Failure (Errorf ''bad server credentials'') \<and>
   calls (snd (Client_Step3 (toy_client MemoryBackend toy_hash 0) ''alice'' (Some 7)
          (toy_world (store_with ''alice'' (client_session2 1000 8 2 4)))))
     = [CGet ''alice''] \<and>
   store (snd (Client_Step3 (toy_client MemoryBackend toy_hash 0) ''alice'' (Some 7)
          (toy_world (store_with ''alice'' (client_session2 1000 8 2 4)))))
     = store_with ''alice'' (client_session2 1000 8 2 4) \<and>
   computeClientEvidence toy_hash 8 3 4 \<noteq> 5 \<and>
   fst (Server_Step2 (toy_server MemoryBackend toy_hash 0) ''alice'' (Some [1, 2, 3]) (Some 10)
          (Some 8) (Some 5) (toy_world (store_with ''alice'' (server_session1 1000 3 15))))
     = Failure (Errorf ''bad client credentials'') \<and>
   calls (snd (Server_Step2 (toy_server MemoryBackend toy_hash 0) ''alice'' (Some [1, 2, 3])
          (Some 10) (Some 8) (Some 5) (toy_world (store_with ''alice'' (server_session1 1000 3 15)))))
     = [CGet ''alice''] \<and>
   store (snd (Server_Step2 (toy_server MemoryBackend toy_hash 0) ''alice'' (Some [1, 2, 3])
          (Some 10) (Some 8) (Some 5) (toy_world (store_with ''alice'' (server_session1 1000 3 15)))))
     = store_with ''alice'' (server_session1 1000 3 15)"
proof -
  let ?c = "toy_client MemoryBackend toy_hash 0"
  let ?s = "toy_server MemoryBackend toy_hash 0"
  let ?wc = "toy_world (store_with ''alice'' (client_session2 1000 8 2 4))"
  let ?ws = "toy_world (store_with ''alice'' (server_session1 1000 3 15))"
  note t = failing_step_writes_nothing [where c = ?c and s = ?s
      and userID = "''alice''" and w = ?wc and userID' = "''alice''" and w' = ?ws
      and salt = "Some [1, 2, 3]" and B = "Some 3" and ?M2.0 = "Some 7"
      and salt' = "Some [1, 2, 3]" and v = "Some 10" and A = "Some 8" and ?M1.0 = "Some 5"
      and e' = "Errorf ''bad client credentials''"
      and N = 23 and ?A1.0 = 8 and m' = "server_session1 1000 3 15"
      and st' = "store_with ''alice'' (server_session1 1000 3 15)" and la' = 1000
      and ?B1.0 = 3 and b = 15 and ?v1.0 = 10 and M1' = 5 and ?salt1.0 = "[1, 2, 3]"
      and m = "client_session2 1000 8 2 4"
      and st = "store_with ''alice'' (client_session2 1000 8 2 4)" and la = 1000
      and ?A2.0 = 8 and ?M1a.0 = 2 and S = 4 and M2' = 7]
  have v: "computeServerEvidence toy_hash 8 2 4 \<noteq> 7" "computeClientEvidence toy_hash 8 3 4 \<noteq> 5"
    by (simp_all add: toy_values)
  have c2: "fst (Client_Step2 ?c ''alice'' (Some [1, 2, 3]) (Some 3) ?wc)
      = Failure (could_not_read ''password'')"
    by (simp add: step_defs toy_defs toy_values)
  have c3: "fst (Client_Step3 ?c ''alice'' (Some 7) ?wc) = Failure (Errorf ''bad server credentials'')"
    using t [where e = "Errorf ''bad server credentials''"]
    by (simp add: toy_defs toy_values Client_hasTimedOut_def)
  have s2: "fst (Server_Step2 ?s ''alice'' (Some [1, 2, 3]) (Some 10) (Some 8) (Some 5) ?ws)
      = Failure (Errorf ''bad client credentials'')"
    using t [where e = "Errorf ''bad server credentials''"]
    by (simp add: toy_defs toy_values Server_hasTimedOut_def)
  have g: "snd (Get (Client.backend ?c) ''alice'' (store_with ''alice'' (client_session2 1000 8 2 4)))
      = store_with ''alice'' (client_session2 1000 8 2 4)"
    "snd (Get (Server.backend ?s) ''alice'' (store_with ''alice'' (server_session1 1000 3 15)))
      = store_with ''alice'' (server_session1 1000 3 15)"
    by (simp_all add: toy_defs)
  have k: "calls ?wc = []" "calls ?ws = []"
    "store ?wc = store_with ''alice'' (client_session2 1000 8 2 4)"
    "store ?ws = store_with ''alice'' (server_session1 1000 3 15)"
    by (simp_all add: toy_world_def)
  have n: "calls (snd (Client_Step2 ?c ''alice'' (Some [1, 2, 3]) (Some 3) ?wc)) \<noteq> []"
    "calls (snd (Client_Step3 ?c ''alice'' (Some 7) ?wc)) \<noteq> []"
    "calls (snd (Server_Step2 ?s ''alice'' (Some [1, 2, 3]) (Some 10) (Some 8) (Some 5) ?ws)) \<noteq> []"
    by (simp_all add: step_defs toy_defs toy_values)
  from t [where e = "could_not_read ''password''"] t [where e = "Errorf ''bad server credentials''"]
    c2 c3 s2
  show ?thesis
    using v n by (simp add: g k)
qed


section \<open>The scrambling parameter\<close>

text \<open>
  Claim C5 asks \<open>Client.Step2\<close> and \<open>Server.Step2\<close> to fail whenever the scrambling
  parameter \<open>u\<close> they compute is 0. Neither step looks at \<open>u\<close>: with a hash whose digest
  is zero \<open>u\<close> is 0 and both steps succeed.
\<close>

theorem zero_scrambling_parameter_accepted:
  "computeScramblingParameter zero_hash 23 8 19 = 0 \<and>
   fst (Client_Step2 (toy_client MemoryBackend zero_hash 0) ''alice'' (Some [1, 2, 3]) (Some 19)
          (toy_world (store_with ''alice'' (client_session1 1000 ''pw''))))
     = Success (8, 0) \<and>
   fst (Server_Step2 (toy_server MemoryBackend zero_hash 0) ''alice'' (Some [1, 2, 3]) (Some 1)
          (Some 8) (Some 0) (toy_world (store_with ''alice'' (server_session1 1000 19 15))))
     = Success 0"
  by (simp add: step_defs toy_defs toy_values zero_values)

text \<open>
  Claim C5 as amended. The scrambling parameter \<open>u = H(PAD(A) \<parallel> PAD(B))\<close> is not
  compared with zero. Once validation, the read of the session, the state check and the
  timeout check have passed (and, on the client, a private value is drawn),
  \<open>Client.Step2\<close> computes the session key from \<open>u\<close>, whatever it is, calls \<open>Put\<close> once,
  after the one \<open>Get\<close>, with the session of state \<open>step2\<close> that holds \<open>A\<close>, \<open>M1\<close> and
  that key, leaves the store as that \<open>Put\<close> leaves it, and returns \<open>(A, M1)\<close>;
  \<open>Server.Step2\<close> computes the session key from \<open>u\<close>, whatever it is, and fails, after
  the one \<open>Get\<close> and nothing else, only when the recomputed \<open>M1\<close> differs from the one it
  was given; otherwise it calls \<open>Delete\<close> once, leaves the store as that \<open>Delete\<close>
  leaves it, and returns \<open>M2\<close>.
\<close>

theorem Step2_does_not_check_u:
  "(userID \<noteq> [] \<and> Prime (Client.grp c) = Some N \<and> Generator (Client.grp c) = Some g \<and>
    isValidPublicValue N (Some B) \<and>
    Get (Client.backend c) userID (store w) = (Inr m, st) \<and>
    m ''state'' = Some (VState step1) \<and> m ''lastActivity'' = Some (VTime la) \<and>
    m ''password'' = Some (VString P) \<and> \<not> fst (Client_hasTimedOut c la w) \<and>
    Client.generatePrivateValue c N (draws w) = Inr a
    \<longrightarrow> (let A = computePublicClientValue N g a;
              u = computeScramblingParameter (Client.fHash c) N A B;
              S = computeClientSessionKey N g (computeMultiplier (Client.fHash c) N g)
                    (Client.computeX c (Client.fHash c) salt userID P) u a B;
              w2 = snd (Client_hasTimedOut c la w);
              sess = client_session2 (clock w2 (ticks w2)) A
                       (computeClientEvidence (Client.fHash c) A B S) S
          in fst (Client_Step2 c userID (Some salt) (Some B) w)
               = Success (A, computeClientEvidence (Client.fHash c) A B S) \<and>
             calls (snd (Client_Step2 c userID (Some salt) (Some B) w))
               = calls w @ [CGet userID, CPut userID sess] \<and>
             store (snd (Client_Step2 c userID (Some salt) (Some B) w))
               = snd (Put (Client.backend c) userID sess st))) \<and>
   (userID' \<noteq> [] \<and> Prime (Server.grp s) = Some N' \<and> isValidPublicValue N' (Some A') \<and>
    Get (Server.backend s) userID' (store w') = (Inr m', st') \<and>
    m' ''state'' = Some (VState step1) \<and> m' ''lastActivity'' = Some (VTime la') \<and>
    m' ''publicServerValue'' = Some (VBigInt B') \<and> m' ''privateServerValue'' = Some (VBigInt b) \<and>
    \<not> fst (Server_hasTimedOut s la' w')
    \<longrightarrow> (let u = computeScramblingParameter (Server.fHash s) N' A' B';
              S = computeServerSessionKey N' v u A' b
          in if computeClientEvidence (Server.fHash s) A' B' S \<noteq> M1
             then fst (Server_Step2 s userID' (Some salt') (Some v) (Some A') (Some M1) w')
                    = Failure (Errorf ''bad client credentials'') \<and>
                  calls (snd (Server_Step2 s userID' (Some salt') (Some v) (Some A') (Some M1) w'))
                    = calls w' @ [CGet userID'] \<and>
                  store (snd (Server_Step2 s userID' (Some salt') (Some v) (Some A') (Some M1) w'))
                    = st'
             else fst (Server_Step2 s userID' (Some salt') (Some v) (Some A') (Some M1) w')
                    = Success (computeServerEvidence (Server.fHash s) A' M1 S) \<and>
                  calls (snd (Server_Step2 s userID' (Some salt') (Some v) (Some A') (Some M1) w'))
                    = calls w' @ [CGet userID', CDelete userID'] \<and>
                  store (snd (Server_Step2 s userID' (Some salt') (Some v) (Some A') (Some M1) w'))
                    = snd (Delete (Server.backend s) userID' st')))"
proof -
  have cl: "(let A = computePublicClientValue N g a;
              u = computeScramblingParameter (Client.fHash c) N A B;
              S = computeClientSessionKey N g (computeMultiplier (Client.fHash c) N g)
                    (Client.computeX c (Client.fHash c) salt userID P) u a B;
              w2 = snd (Client_hasTimedOut c la w);
              sess = client_session2 (clock w2 (ticks w2)) A
                       (computeClientEvidence (Client.fHash c) A B S) S
          in fst (Client_Step2 c userID (Some salt) (Some B) w)
               = Success (A, computeClientEvidence (Client.fHash c) A B S) \<and>
             calls (snd (Client_Step2 c userID (Some salt) (Some B) w))
               = calls w @ [CGet userID, CPut userID sess] \<and>
             store (snd (Client_Step2 c userID (Some salt) (Some B) w))
               = snd (Put (Client.backend c) userID sess st))"
    if h: "userID \<noteq> []" "Prime (Client.grp c) = Some N" "Generator (Client.grp c) = Some g"
      "isValidPublicValue N (Some B)" "Get (Client.backend c) userID (store w) = (Inr m, st)"
      "m ''state'' = Some (VState step1)" "m ''lastActivity'' = Some (VTime la)"
      "m ''password'' = Some (VString P)" "\<not> fst (Client_hasTimedOut c la w)"
      "Client.generatePrivateValue c N (draws w) = Inr a"
    using Client_Step2_passes [OF h, of salt] Client_Step2_passes_world [OF h, of salt]
    by (simp add: Let_def)
  have sv: "(let u = computeScramblingParameter (Server.fHash s) N' A' B';
              S = computeServerSessionKey N' v u A' b
          in if computeClientEvidence (Server.fHash s) A' B' S \<noteq> M1
             then fst (Server_Step2 s userID' (Some salt') (Some v) (Some A') (Some M1) w')
                    = Failure (Errorf ''bad client credentials'') \<and>
                  calls (snd (Server_Step2 s userID' (Some salt') (Some v) (Some A') (Some M1) w'))
                    = calls w' @ [CGet userID'] \<and>
                  store (snd (Server_Step2 s userID' (Some salt') (Some v) (Some A') (Some M1) w'))
                    = st'
             else fst (Server_Step2 s userID' (Some salt') (Some v) (Some A') (Some M1) w')
                    = Success (computeServerEvidence (Server.fHash s) A' M1 S) \<and>
                  calls (snd (Server_Step2 s userID' (Some salt') (Some v) (Some A') (Some M1) w'))
                    = calls w' @ [CGet userID', CDelete userID'] \<and>
                  store (snd (Server_Step2 s userID' (Some salt') (Some v) (Some A') (Some M1) w'))
                    = snd (Delete (Server.backend s) userID' st'))"
    if h: "userID' \<noteq> []" "Prime (Server.grp s) = Some N'" "isValidPublicValue N' (Some A')"
      "Get (Server.backend s) userID' (store w') = (Inr m', st')"
      "m' ''state'' = Some (VState step1)" "m' ''lastActivity'' = Some (VTime la')"
      "m' ''publicServerValue'' = Some (VBigInt B')"
      "m' ''privateServerValue'' = Some (VBigInt b)" "\<not> fst (Server_hasTimedOut s la' w')"
    using Server_Step2_passes [OF h, of salt' v M1] Server_Step2_passes_world [OF h, of v M1 salt']
    by (simp add: Let_def)
  show ?thesis
    using cl sv by blast
qed

theorem Step2_does_not_check_u_witness:
  "computeScramblingParameter (Client.fHash (toy_client MemoryBackend zero_hash 0)) 23
       (computePublicClientValue 23 5 6) 19 = 0 \<and>
   fst (Client_Step2 (toy_client MemoryBackend zero_hash 0) ''alice'' (Some [1, 2, 3]) (Some 19)
          (toy_world (store_with ''alice'' (client_session1 1000 ''pw''))))
     = Success (8, 0) \<and>
   calls (snd (Client_Step2 (toy_client MemoryBackend zero_hash 0) ''alice'' (Some [1, 2, 3])
          (Some 19) (toy_world (store_with ''alice'' (client_session1 1000 ''pw'')))))
     = [CGet ''alice'', CPut ''alice'' (client_session2 1000 8 0 2)] \<and>
   store (snd (Client_Step2 (toy_client MemoryBackend zero_hash 0) ''alice'' (Some [1, 2, 3])
          (Some 19) (toy_world (store_with ''alice'' (client_session1 1000 ''pw''))))) ''alice''
     = Some (client_session2 1000 8 0 2) \<and>
   computeScramblingParameter (Server.fHash (toy_server MemoryBackend zero_hash 0)) 23 8 19 = 0 \<and>
   fst (Server_Step2 (toy_server MemoryBackend zero_hash 0) ''alice'' (Some [1, 2, 3]) (Some 1)
          (Some 8) (Some 0) (toy_world (store_with ''alice'' (server_session1 1000 19 15))))
     = Success 0 \<and>
   calls (snd (Server_Step2 (toy_server MemoryBackend zero_hash 0) ''alice'' (Some [1, 2, 3])
          (Some 1) (Some 8) (Some 0) (toy_world (store_with ''alice'' (server_session1 1000 19 15)))))
     = [CGet ''alice'', CDelete ''alice''] \<and>
   store (snd (Server_Step2 (toy_server MemoryBackend zero_hash 0) ''alice'' (Some [1, 2, 3])
          (Some 1) (Some 8) (Some 0) (toy_world (store_with ''alice'' (server_session1 1000 19 15)))))
       ''alice''
     = None \<and>
   fst (Server_Step2 (toy_server MemoryBackend zero_hash 0) ''alice'' (Some [1, 2, 3]) (Some 1)
          (Some 8) (Some 9) (toy_world (store_with ''alice'' (server_session1 1000 19 15))))
     = Failure (Errorf ''bad client credentials'') \<and>
   calls (snd (Server_Step2 (toy_server MemoryBackend zero_hash 0) ''alice'' (Some [1, 2, 3])
          (Some 1) (Some 8) (Some 9) (toy_world (store_with ''alice'' (server_session1 1000 19 15)))))
     = [CGet ''alice'']"
proof -
  let ?c = "toy_client MemoryBackend zero_hash 0"
  let ?s = "toy_server MemoryBackend zero_hash 0"
  let ?wc = "toy_world (store_with ''alice'' (client_session1 1000 ''pw''))"
  let ?ws = "toy_world (store_with ''alice'' (server_session1 1000 19 15))"
  note t = Step2_does_not_check_u [where c = ?c and s = ?s
      and userID = "''alice''" and w = ?wc and userID' = "''alice''" and w' = ?ws
      and N = 23 and g = 5 and B = 19 and m = "client_session1 1000 ''pw''"
      and st = "store_with ''alice'' (client_session1 1000 ''pw'')" and la = 1000
      and P = "''pw''" and a = 6 and salt = "[1, 2, 3]"
      and N' = 23 and A' = 8 and m' = "server_session1 1000 19 15"
      and st' = "store_with ''alice'' (server_session1 1000 19 15)" and la' = 1000
      and B' = 19 and b = 15 and salt' = "[1, 2, 3]" and v = 1]
  have u: "computeScramblingParameter (Client.fHash ?c) 23 (computePublicClientValue 23 5 6) 19 = 0"
    "computeScramblingParameter (Server.fHash ?s) 23 8 19 = 0"
    by (simp_all add: toy_defs toy_values zero_values)
  have c2: "fst (Client_Step2 ?c ''alice'' (Some [1, 2, 3]) (Some 19) ?wc) = Success (8, 0) \<and>
      calls (snd (Client_Step2 ?c ''alice'' (Some [1, 2, 3]) (Some 19) ?wc))
        = [CGet ''alice'', CPut ''alice'' (client_session2 1000 8 0 2)] \<and>
      store (snd (Client_Step2 ?c ''alice'' (Some [1, 2, 3]) (Some 19) ?wc)) ''alice''
        = Some (client_session2 1000 8 0 2)"
    using t [where ?M1.0 = 0]
    by (simp add: toy_defs toy_values zero_values Client_hasTimedOut_def Let_def)
  have s2: "fst (Server_Step2 ?s ''alice'' (Some [1, 2, 3]) (Some 1) (Some 8) (Some 0) ?ws) = Success 0 \<and>
      calls (snd (Server_Step2 ?s ''alice'' (Some [1, 2, 3]) (Some 1) (Some 8) (Some 0) ?ws))
        = [CGet ''alice'', CDelete ''alice''] \<and>
      store (snd (Server_Step2 ?s ''alice'' (Some [1, 2, 3]) (Some 1) (Some 8) (Some 0) ?ws)) ''alice''
        = None"
    using t [where ?M1.0 = 0]
    by (simp add: toy_defs toy_values zero_values Server_hasTimedOut_def Let_def)
  have s3: "fst (Server_Step2 ?s ''alice'' (Some [1, 2, 3]) (Some 1) (Some 8) (Some 9) ?ws)
        = Failure (Errorf ''bad client credentials'') \<and>
      calls (snd (Server_Step2 ?s ''alice'' (Some [1, 2, 3]) (Some 1) (Some 8) (Some 9) ?ws))
        = [CGet ''alice'']"
    using t [where ?M1.0 = 9]
    by (simp add: toy_defs toy_values zero_values Server_hasTimedOut_def Let_def)
  show ?thesis
    using u c2 s2 s3 by simp
qed

end
